theory Spec2Isabelle
  imports Main "HOL-Library.Multiset"
begin

section \<open>JavaScript values the program inspects at run time\<close>

text \<open>
  The program is TypeScript. Fields that the code trusts through their declared type
  carry that type here; a field whose run-time type the code inspects (\<open>typeof\<close>,
  truthiness) is a \<open>jsval\<close>, so that the check is a real branch of the model.
  A \<open>number\<close> is a finite number, here an integer (the priority is documented as an
  integer from 1 to 5, the time of a date is a count of milliseconds), or one of the three
  special values: \<open>Infinity\<close> is written in the source, an invalid date has the time
  \<open>NaN\<close>, and the constructor keeps any priority whose type is \<open>number\<close>.
\<close>

datatype number = NaN | NegInfinity | Finite int | Infinity

datatype jsval = JUndefined | JNull | JBool bool | JNumber number | JString string | JObject

fun js_typeof :: "jsval \<Rightarrow> string" where
  "js_typeof JUndefined = ''undefined''"
| "js_typeof JNull = ''object''"
| "js_typeof (JBool b) = ''boolean''"
| "js_typeof (JNumber n) = ''number''"
| "js_typeof (JString s) = ''string''"
| "js_typeof JObject = ''object''"

fun truthy :: "jsval \<Rightarrow> bool" where
  "truthy JUndefined = False"
| "truthy JNull = False"
| "truthy (JBool b) = b"
| "truthy (JNumber n) = (n \<noteq> NaN \<and> n \<noteq> Finite 0)"
| "truthy (JString s) = (s \<noteq> [])"
| "truthy JObject = True"

text \<open>\<open>a - b\<close> on numbers: \<open>Infinity - Infinity\<close> is \<open>NaN\<close>.\<close>

fun js_minus :: "number \<Rightarrow> number \<Rightarrow> number" where
  "js_minus NaN b = NaN"
| "js_minus a NaN = NaN"
| "js_minus Infinity Infinity = NaN"
| "js_minus NegInfinity NegInfinity = NaN"
| "js_minus Infinity b = Infinity"
| "js_minus NegInfinity b = NegInfinity"
| "js_minus (Finite a) Infinity = NegInfinity"
| "js_minus (Finite a) NegInfinity = Infinity"
| "js_minus (Finite a) (Finite b) = Finite (a - b)"

text \<open>\<open>a < b\<close> on numbers: false as soon as one side is \<open>NaN\<close>.\<close>

fun js_less :: "number \<Rightarrow> number \<Rightarrow> bool" where
  "js_less NaN b = False"
| "js_less a NaN = False"
| "js_less Infinity b = False"
| "js_less a NegInfinity = False"
| "js_less NegInfinity b = True"
| "js_less a Infinity = True"
| "js_less (Finite a) (Finite b) = (a < b)"

text \<open>\<open>a <= b\<close> on numbers: false as soon as one side is \<open>NaN\<close>.\<close>

fun js_leq :: "number \<Rightarrow> number \<Rightarrow> bool" where
  "js_leq NaN b = False"
| "js_leq a NaN = False"
| "js_leq NegInfinity b = True"
| "js_leq a Infinity = True"
| "js_leq Infinity b = False"
| "js_leq a NegInfinity = False"
| "js_leq (Finite a) (Finite b) = (a \<le> b)"

text \<open>
  \<open>new Date(s).getTime()\<close>. Parsing a date string is the work of the run-time library:
  it is the parameter \<open>parse\<close>, which gives the milliseconds since the epoch, or nothing
  for a string that is not a date (an Invalid Date, whose time is \<open>NaN\<close>). The empty
  string is never a date.
\<close>

definition getTime :: "(string \<Rightarrow> int option) \<Rightarrow> string \<Rightarrow> number" where
  "getTime parse s =
     (if s = [] then NaN else case parse s of None \<Rightarrow> NaN | Some ms \<Rightarrow> Finite ms)"

section \<open>Task entity\<close>

text \<open>The string enums \<open>TaskStatus\<close> and \<open>TaskDifficulty\<close>: at run time, strings.\<close>

definition TaskStatus_TODO :: string where "TaskStatus_TODO = ''todo''"
definition TaskStatus_IN_PROGRESS :: string where "TaskStatus_IN_PROGRESS = ''in_progress''"
definition TaskStatus_DONE :: string where "TaskStatus_DONE = ''done''"
definition TaskStatus_CANCELLED :: string where "TaskStatus_CANCELLED = ''cancelled''"

definition TaskDifficulty_LOW :: string where "TaskDifficulty_LOW = ''low''"
definition TaskDifficulty_MEDIUM :: string where "TaskDifficulty_MEDIUM = ''medium''"
definition TaskDifficulty_HIGH :: string where "TaskDifficulty_HIGH = ''high''"

text \<open>
  \<open>interface ITask\<close>. An optional field is an \<open>option\<close>: \<open>None\<close> is \<open>undefined\<close>.
  The field \<open>id\<close> is \<open>task_id\<close> here. The priority is the value the object holds: the
  constructor puts a number there, and a task read from the file has what the file had.
\<close>

record ITask =
  task_id :: string
  title :: string
  description :: "string option"
  createdAt :: string
  dueDate :: "string option"
  difficulty :: string
  priority :: jsval
  status :: string
  tags :: "string list option"
  relatedIds :: "string list option"
  deleted :: "bool option"

text \<open>
  The constructor's argument, \<open>Partial<ITask> & { title: string }\<close>: every field may be
  absent (\<open>None\<close>, or \<open>JUndefined\<close>). The constructor inspects the run-time type of
  \<open>title\<close> and \<open>priority\<close>.
\<close>

record payload =
  p_id :: "string option"
  p_title :: jsval
  p_description :: "string option"
  p_createdAt :: "string option"
  p_dueDate :: "string option"
  p_difficulty :: "string option"
  p_priority :: jsval
  p_status :: "string option"
  p_tags :: "string list option"
  p_relatedIds :: "string list option"
  p_deleted :: "bool option"

datatype error =
    ValidationError
  | FsError string
  | SyntaxError
  | TypeError

text \<open>\<open>a ?? b\<close>\<close>

fun nullish :: "'a option \<Rightarrow> 'a \<Rightarrow> 'a" where
  "nullish None b = b"
| "nullish (Some a) b = a"

text \<open>
  \<open>new Task(payload)\<close>. \<open>uuid\<close> is what \<open>uuidv4()\<close> returns and \<open>now\<close> what
  \<open>new Date().toISOString()\<close> returns, were they called.
\<close>

definition Task_new :: "string \<Rightarrow> string \<Rightarrow> payload \<Rightarrow> error + ITask" where
  "Task_new uuid now p =
     (if \<not> truthy (p_title p) \<or> js_typeof (p_title p) \<noteq> ''string'' then Inl ValidationError
      else Inr \<lparr>
        task_id = nullish (p_id p) uuid,
        title = (case p_title p of JString s \<Rightarrow> s | _ \<Rightarrow> []),
        description = p_description p,
        createdAt = nullish (p_createdAt p) now,
        dueDate = p_dueDate p,
        difficulty = nullish (p_difficulty p) TaskDifficulty_MEDIUM,
        priority = (if js_typeof (p_priority p) = ''number'' then p_priority p
                    else JNumber (Finite 3)),
        status = nullish (p_status p) TaskStatus_TODO,
        tags = Some (nullish (p_tags p) []),
        relatedIds = Some (nullish (p_relatedIds p) []),
        deleted = Some (nullish (p_deleted p) False) \<rparr>)"

definition Task_complete :: "ITask \<Rightarrow> ITask" where
  "Task_complete t = t\<lparr>status := TaskStatus_DONE\<rparr>"

definition Task_softDelete :: "ITask \<Rightarrow> ITask" where
  "Task_softDelete t = t\<lparr>deleted := Some True\<rparr>"

definition Task_restore :: "ITask \<Rightarrow> ITask" where
  "Task_restore t = t\<lparr>deleted := Some False\<rparr>"

section \<open>Pure functions over tasks\<close>

text \<open>The truth value of the optional flag \<open>t.deleted\<close>.\<close>

fun flag :: "bool option \<Rightarrow> bool" where
  "flag None = False"
| "flag (Some b) = b"

definition isOverdue :: "(string \<Rightarrow> int option) \<Rightarrow> string \<Rightarrow> ITask \<Rightarrow> bool" where
  "isOverdue parse nowIso t =
     (case dueDate t of
        None \<Rightarrow> False
      | Some d \<Rightarrow>
          if d = [] then False
          else js_less (getTime parse d) (getTime parse nowIso))"

definition isNotDeleted :: "ITask \<Rightarrow> bool" where
  "isNotDeleted t = (\<not> flag (deleted t))"

text \<open>
  \<open>Array.prototype.sort(comparefn)\<close> on a copy of the array. The language fixes the
  result for a consistent comparator: the stable ordering by \<open>comparefn\<close>, where a
  result \<open>NaN\<close> counts as \<open>+0\<close>. The model is the stable insertion sort, which
  moves an element behind another only when the comparator's result is positive. For a
  comparator that is not consistent the language leaves the order to the implementation;
  the insertion sort then gives one order an implementation can give, which need not be
  the order a given engine gives, and it leaves alone, as a sort that looks for ascending
  runs does, an array whose neighbours all compare as equal.
\<close>

fun positive :: "number \<Rightarrow> bool" where
  "positive NaN = False"
| "positive NegInfinity = False"
| "positive (Finite n) = (n > 0)"
| "positive Infinity = True"

fun insert_sorted :: "('a \<Rightarrow> 'a \<Rightarrow> number) \<Rightarrow> 'a \<Rightarrow> 'a list \<Rightarrow> 'a list" where
  "insert_sorted comparefn x [] = [x]"
| "insert_sorted comparefn x (y # ys) =
     (if positive (comparefn x y) then y # insert_sorted comparefn x ys else x # y # ys)"

fun Array_sort :: "('a \<Rightarrow> 'a \<Rightarrow> number) \<Rightarrow> 'a list \<Rightarrow> 'a list" where
  "Array_sort comparefn [] = []"
| "Array_sort comparefn (x # xs) = insert_sorted comparefn x (Array_sort comparefn xs)"

text \<open>\<open>localeCompare\<close> is the run-time library's: a parameter.\<close>

definition sortByTitle :: "(string \<Rightarrow> string \<Rightarrow> int) \<Rightarrow> ITask list \<Rightarrow> ITask list" where
  "sortByTitle localeCompare tasks =
     Array_sort (\<lambda>a b. Finite (localeCompare (title a) (title b))) tasks"

definition sortByCreation :: "(string \<Rightarrow> int option) \<Rightarrow> ITask list \<Rightarrow> ITask list" where
  "sortByCreation parse tasks =
     Array_sort (\<lambda>a b. js_minus (getTime parse (createdAt a)) (getTime parse (createdAt b))) tasks"

text \<open>\<open>a.dueDate ? new Date(a.dueDate).getTime() : Infinity\<close>\<close>

definition dueOrInfinity :: "(string \<Rightarrow> int option) \<Rightarrow> ITask \<Rightarrow> number" where
  "dueOrInfinity parse a =
     (case dueDate a of
        None \<Rightarrow> Infinity
      | Some d \<Rightarrow> if d = [] then Infinity else getTime parse d)"

text \<open>\<open>new Date(t.dueDate).getTime()\<close>, the instant a task is due: \<open>NaN\<close> without a due date.\<close>

definition dueTime :: "(string \<Rightarrow> int option) \<Rightarrow> ITask \<Rightarrow> number" where
  "dueTime parse t = (case dueDate t of None \<Rightarrow> NaN | Some d \<Rightarrow> getTime parse d)"

definition sortByDueDate :: "(string \<Rightarrow> int option) \<Rightarrow> ITask list \<Rightarrow> ITask list" where
  "sortByDueDate parse tasks =
     Array_sort (\<lambda>a b. js_minus (dueOrInfinity parse a) (dueOrInfinity parse b)) tasks"

definition difficultyRank :: "string \<Rightarrow> int" where
  "difficultyRank d =
     (if d = TaskDifficulty_LOW then 1
      else if d = TaskDifficulty_MEDIUM then 2
      else if d = TaskDifficulty_HIGH then 3
      else 2)"

definition sortByDifficulty :: "ITask list \<Rightarrow> ITask list" where
  "sortByDifficulty tasks =
     Array_sort (\<lambda>a b. Finite (difficultyRank (difficulty a) - difficultyRank (difficulty b))) tasks"

section \<open>Repository\<close>

text \<open>
  A task as the object it is at run time. The declared type \<open>ITask\<close> keeps no field from
  holding another value; the fields whose value the program inspects or replaces (\<open>id\<close>
  and \<open>title\<close>, which the reader checks, and \<open>priority\<close>) hold any value here, the
  other fields are trusted through their type.
\<close>

record raw_task =
  r_id :: jsval
  r_title :: jsval
  r_description :: "string option"
  r_createdAt :: string
  r_dueDate :: "string option"
  r_difficulty :: string
  r_priority :: jsval
  r_status :: string
  r_tags :: "string list option"
  r_relatedIds :: "string list option"
  r_deleted :: "bool option"

text \<open>The object a well-typed task is.\<close>

definition to_raw :: "ITask \<Rightarrow> raw_task" where
  "to_raw t =
     \<lparr> r_id = JString (task_id t), r_title = JString (title t),
       r_description = description t, r_createdAt = createdAt t, r_dueDate = dueDate t,
       r_difficulty = difficulty t, r_priority = priority t, r_status = status t,
       r_tags = tags t, r_relatedIds = relatedIds t, r_deleted = deleted t \<rparr>"

text \<open>
  The file holds text; what the program sees of it is what \<open>JSON.parse\<close> makes of the
  text, and what it puts there is the text \<open>JSON.stringify\<close> makes of the tasks. Both
  belong to the run-time library, and the model keeps the parsed document in place of the
  text. \<open>json_value v\<close> is what \<open>JSON.parse\<close> reads where \<open>JSON.stringify\<close> wrote
  the value \<open>v\<close> of a field: a number that is not finite is written as \<open>null\<close>; a
  field that is \<open>undefined\<close> is left out of the text and is \<open>undefined\<close> when read;
  strings, finite numbers, booleans, \<open>null\<close> and arrays of strings are read as written.
\<close>

fun json_value :: "jsval \<Rightarrow> jsval" where
  "json_value (JNumber NaN) = JNull"
| "json_value (JNumber Infinity) = JNull"
| "json_value (JNumber NegInfinity) = JNull"
| "json_value v = v"

definition json_task :: "raw_task \<Rightarrow> raw_task" where
  "json_task r =
     r\<lparr> r_id := json_value (r_id r), r_title := json_value (r_title r),
        r_priority := json_value (r_priority r) \<rparr>"

text \<open>An element of the stored array: a record of the eleven fields, or a value that is none.\<close>

datatype element = Primitive jsval | Object raw_task

text \<open>What a well-typed task is in the stored document.\<close>

definition stringify :: "ITask \<Rightarrow> element" where
  "stringify t = Object (json_task (to_raw t))"

text \<open>
  The contents of the file: there is no file, its text is not JSON, its text is JSON but no
  array (so that \<open>filter\<close> is no function), or it holds an array.
\<close>

datatype stored_file = Missing | Invalid | NotArray | Stored "element list"

text \<open>
  The disk: the file, the code with which \<open>readFile\<close> fails whatever the file holds
  (no permission to read), the code with which \<open>mkdir\<close> or \<open>writeFile\<close> fails if they
  do, and the number of writes done.
\<close>

record disk =
  contents :: stored_file
  read_error :: "string option"
  write_error :: "string option"
  writes :: nat

fun element_truthy :: "element \<Rightarrow> bool" where
  "element_truthy (Primitive v) = truthy v"
| "element_truthy (Object r) = True"

fun element_id :: "element \<Rightarrow> jsval" where
  "element_id (Primitive v) = JUndefined"
| "element_id (Object r) = r_id r"

fun element_title :: "element \<Rightarrow> jsval" where
  "element_title (Primitive v) = JUndefined"
| "element_title (Object r) = r_title r"

text \<open>\<open>t && typeof t.id === 'string' && typeof t.title === 'string'\<close>\<close>

definition minimalShape :: "element \<Rightarrow> bool" where
  "minimalShape t =
     (element_truthy t \<and> js_typeof (element_id t) = ''string''
        \<and> js_typeof (element_title t) = ''string'')"

text \<open>The cast to \<open>ITask\<close>: defined on the elements with a text id and a text title.\<close>

fun as_ITask :: "element \<Rightarrow> ITask option" where
  "as_ITask (Primitive v) = None"
| "as_ITask (Object r) =
     (case (r_id r, r_title r) of
        (JString i, JString s) \<Rightarrow>
          Some \<lparr> task_id = i, title = s, description = r_description r,
                 createdAt = r_createdAt r, dueDate = r_dueDate r,
                 difficulty = r_difficulty r, priority = r_priority r, status = r_status r,
                 tags = r_tags r, relatedIds = r_relatedIds r, deleted = r_deleted r \<rparr>
      | _ \<Rightarrow> None)"

text \<open>
  \<open>readAll\<close>: an error of \<open>readFile\<close> with the code \<open>ENOENT\<close>, which a missing
  file gives, is an empty collection; every other error is thrown again.
\<close>

definition TaskRepository_readAll :: "disk \<Rightarrow> error + ITask list" where
  "TaskRepository_readAll d =
     (case read_error d of
        Some code \<Rightarrow> if code = ''ENOENT'' then Inr [] else Inl (FsError code)
      | None \<Rightarrow>
          (case contents d of
             Missing \<Rightarrow> Inr []
           | Invalid \<Rightarrow> Inl SyntaxError
           | NotArray \<Rightarrow> Inl TypeError
           | Stored parsed \<Rightarrow> Inr (List.map_filter as_ITask (filter minimalShape parsed))))"

text \<open>
  \<open>writeAll\<close>, on the objects it is given. An accepted write leaves the file holding the
  array; whether the file can be read is as before.
\<close>

definition TaskRepository_writeAll :: "raw_task list \<Rightarrow> disk \<Rightarrow> error + disk" where
  "TaskRepository_writeAll tasks d =
     (case write_error d of
        Some code \<Rightarrow> Inl (FsError code)
      | None \<Rightarrow>
          Inr (d\<lparr>contents := Stored (map (\<lambda>t. Object (json_task t)) tasks),
                writes := writes d + 1\<rparr>))"

section \<open>Manager\<close>

text \<open>
  The manager's state: the cache (\<open>None\<close> is \<open>null\<close>, not loaded) and the disk behind its
  repository. A method returns its result, or the error it throws, and the state it leaves.
\<close>

record TaskManager =
  cache :: "ITask list option"
  repo :: disk

definition loadIfNeeded :: "TaskManager \<Rightarrow> (error + unit) \<times> TaskManager" where
  "loadIfNeeded m =
     (case cache m of
        Some ts \<Rightarrow> (Inr (), m)
      | None \<Rightarrow>
          (case TaskRepository_readAll (repo m) of
             Inl e \<Rightarrow> (Inl e, m)
           | Inr ts \<Rightarrow> (Inr (), m\<lparr>cache := Some ts\<rparr>)))"

definition reload :: "TaskManager \<Rightarrow> (error + unit) \<times> TaskManager" where
  "reload m =
     (case TaskRepository_readAll (repo m) of
        Inl e \<Rightarrow> (Inl e, m)
      | Inr ts \<Rightarrow> (Inr (), m\<lparr>cache := Some ts\<rparr>))"

text \<open>\<open>await this.loadIfNeeded()\<close>, then the rest of the method on \<open>this.cache!\<close>.\<close>

definition with_cache ::
  "TaskManager \<Rightarrow> (ITask list \<Rightarrow> TaskManager \<Rightarrow> (error + 'a) \<times> TaskManager)
     \<Rightarrow> (error + 'a) \<times> TaskManager" where
  "with_cache m body =
     (case loadIfNeeded m of
        (Inl e, m1) \<Rightarrow> (Inl e, m1)
      | (Inr u, m1) \<Rightarrow>
          (case cache m1 of
             None \<Rightarrow> (Inl TypeError, m1)
           | Some ts \<Rightarrow> body ts m1))"

text \<open>
  \<open>this.cache = ts; await this.repo.writeAll(this.cache!); return x\<close>: the cache keeps
  its new value when the write fails.
\<close>

definition persist :: "ITask list \<Rightarrow> 'a \<Rightarrow> TaskManager \<Rightarrow> (error + 'a) \<times> TaskManager" where
  "persist ts x m =
     (case TaskRepository_writeAll (map to_raw ts) (repo m) of
        Inl e \<Rightarrow> (Inl e, m\<lparr>cache := Some ts\<rparr>)
      | Inr d \<Rightarrow> (Inr x, m\<lparr>cache := Some ts, repo := d\<rparr>))"

definition TaskManager_add ::
  "string \<Rightarrow> string \<Rightarrow> payload \<Rightarrow> TaskManager \<Rightarrow> (error + ITask) \<times> TaskManager" where
  "TaskManager_add uuid now taskPayload m =
     with_cache m (\<lambda>ts m1.
       case Task_new uuid now taskPayload of
         Inl e \<Rightarrow> (Inl e, m1)
       | Inr t \<Rightarrow> persist (ts @ [t]) t m1)"

definition TaskManager_findById ::
  "string \<Rightarrow> TaskManager \<Rightarrow> (error + ITask option) \<times> TaskManager" where
  "TaskManager_findById i m =
     with_cache m (\<lambda>ts m1. (Inr (find (\<lambda>t. task_id t = i) ts), m1))"

text \<open>\<open>findIndex\<close>: \<open>None\<close> is \<open>-1\<close>.\<close>

fun findIndex :: "('a \<Rightarrow> bool) \<Rightarrow> 'a list \<Rightarrow> nat option" where
  "findIndex P [] = None"
| "findIndex P (x # xs) = (if P x then Some 0 else map_option Suc (findIndex P xs))"

text \<open>
  \<open>Partial<ITask>\<close>, the changes of an update: each key is absent or present; a present
  optional field may hold \<open>undefined\<close>.
\<close>

datatype 'a key = Absent | Present 'a

record changes =
  c_id :: "string key"
  c_title :: "string key"
  c_description :: "string option key"
  c_createdAt :: "string key"
  c_dueDate :: "string option key"
  c_difficulty :: "string key"
  c_priority :: "jsval key"
  c_status :: "string key"
  c_tags :: "string list option key"
  c_relatedIds :: "string list option key"
  c_deleted :: "bool option key"

text \<open>One key of \<open>{ ...current, ...changes }\<close>.\<close>

fun spread :: "'a \<Rightarrow> 'a key \<Rightarrow> 'a" where
  "spread cur Absent = cur"
| "spread cur (Present v) = v"

text \<open>\<open>{ ...current, ...changes, id: current.id }\<close>\<close>

definition merge :: "ITask \<Rightarrow> changes \<Rightarrow> ITask" where
  "merge current ch =
     \<lparr> task_id = task_id current,
       title = spread (title current) (c_title ch),
       description = spread (description current) (c_description ch),
       createdAt = spread (createdAt current) (c_createdAt ch),
       dueDate = spread (dueDate current) (c_dueDate ch),
       difficulty = spread (difficulty current) (c_difficulty ch),
       priority = spread (priority current) (c_priority ch),
       status = spread (status current) (c_status ch),
       tags = spread (tags current) (c_tags ch),
       relatedIds = spread (relatedIds current) (c_relatedIds ch),
       deleted = spread (deleted current) (c_deleted ch) \<rparr>"

definition TaskManager_update ::
  "string \<Rightarrow> changes \<Rightarrow> TaskManager \<Rightarrow> (error + ITask option) \<times> TaskManager" where
  "TaskManager_update i ch m =
     with_cache m (\<lambda>ts m1.
       case findIndex (\<lambda>t. task_id t = i) ts of
         None \<Rightarrow> (Inr None, m1)
       | Some idx \<Rightarrow>
           (let current = ts ! idx;
                updated = merge current ch
            in persist (ts[idx := updated]) (Some updated) m1))"

text \<open>
  \<open>find\<close> gives the first task with the id, and \<open>t.deleted = true\<close> changes that
  task where it stands in the cache.
\<close>

definition TaskManager_softDelete ::
  "string \<Rightarrow> TaskManager \<Rightarrow> (error + bool) \<times> TaskManager" where
  "TaskManager_softDelete i m =
     with_cache m (\<lambda>ts m1.
       case findIndex (\<lambda>x. task_id x = i) ts of
         None \<Rightarrow> (Inr False, m1)
       | Some idx \<Rightarrow> persist (ts[idx := (ts ! idx)\<lparr>deleted := Some True\<rparr>]) True m1)"

definition TaskManager_hardDelete ::
  "string \<Rightarrow> TaskManager \<Rightarrow> (error + bool) \<times> TaskManager" where
  "TaskManager_hardDelete i m =
     with_cache m (\<lambda>ts m1.
       (let prevLen = length ts;
            ts' = filter (\<lambda>x. task_id x \<noteq> i) ts
        in persist ts' (length ts' < prevLen) m1))"

text \<open>
  The collection a method works on once \<open>loadIfNeeded\<close> has passed: the cache, or what
  the repository reads when the cache is not loaded.
\<close>

definition collection :: "TaskManager \<Rightarrow> error + ITask list" where
  "collection m =
     (case cache m of
        Some ts \<Rightarrow> Inr ts
      | None \<Rightarrow> TaskRepository_readAll (repo m))"

datatype sort_field = ByTitle | ByCreatedAt | ByDueDate | ByDifficulty

record list_options =
  includeDeleted :: "bool option"
  sortBy :: "sort_field option"

text \<open>\<open>options?.includeDeleted\<close> and \<open>options?.sortBy\<close>\<close>

fun options_includeDeleted :: "list_options option \<Rightarrow> bool option" where
  "options_includeDeleted None = None"
| "options_includeDeleted (Some opts) = includeDeleted opts"

fun options_sortBy :: "list_options option \<Rightarrow> sort_field option" where
  "options_sortBy None = None"
| "options_sortBy (Some opts) = sortBy opts"

definition TaskManager_list ::
  "(string \<Rightarrow> string \<Rightarrow> int) \<Rightarrow> (string \<Rightarrow> int option) \<Rightarrow> list_options option \<Rightarrow> TaskManager
     \<Rightarrow> (error + ITask list) \<times> TaskManager" where
  "TaskManager_list localeCompare parse options m =
     with_cache m (\<lambda>ts m1.
       (let result = (if \<not> flag (options_includeDeleted options)
                      then filter isNotDeleted ts else ts);
            result = (case options_sortBy options of
                        Some ByTitle \<Rightarrow> sortByTitle localeCompare result
                      | Some ByCreatedAt \<Rightarrow> sortByCreation parse result
                      | Some ByDueDate \<Rightarrow> sortByDueDate parse result
                      | Some ByDifficulty \<Rightarrow> sortByDifficulty result
                      | None \<Rightarrow> result)
        in (Inr result, m1)))"

section \<open>Concrete inputs\<close>

definition example_payload :: payload where
  "example_payload = \<lparr> p_id = None, p_title = JString ''Preparar'', p_description = None,
     p_createdAt = None, p_dueDate = None, p_difficulty = None, p_priority = JUndefined,
     p_status = None, p_tags = None, p_relatedIds = None, p_deleted = None \<rparr>"

text \<open>A date parser that knows three days of January 2025 and nothing else.\<close>

definition example_parse :: "string \<Rightarrow> int option" where
  "example_parse s =
     (if s = ''2025-01-01T00:00:00Z'' then Some 1735689600000
      else if s = ''2025-01-02T00:00:00Z'' then Some 1735776000000
      else if s = ''2025-01-03T00:00:00Z'' then Some 1735862400000
      else None)"

definition example_task :: "string \<Rightarrow> string option \<Rightarrow> string \<Rightarrow> ITask" where
  "example_task i due d =
     \<lparr> task_id = i, title = ''tarea'', description = None, createdAt = ''2025-01-01T00:00:00Z'',
       dueDate = due, difficulty = d, priority = JNumber (Finite 3), status = ''todo'', tags = Some [],
       relatedIds = Some [], deleted = Some False \<rparr>"

definition task_jan1 :: ITask where
  "task_jan1 = example_task ''a'' (Some ''2025-01-01T00:00:00Z'') ''high''"

definition task_jan3 :: ITask where
  "task_jan3 = example_task ''b'' (Some ''2025-01-03T00:00:00Z'') ''low''"

definition task_no_due :: ITask where
  "task_no_due = example_task ''c'' None ''urgent''"

definition task_bad_due :: ITask where
  "task_bad_due = example_task ''d'' (Some ''tomorrow'') ''medium''"

text \<open>A manager on an empty directory, and a payload that brings its own id.\<close>

definition fresh_manager :: TaskManager where
  "fresh_manager =
     \<lparr> cache = None,
       repo = \<lparr> contents = Missing, read_error = None, write_error = None, writes = 0 \<rparr> \<rparr>"

definition payload_a :: payload where
  "payload_a = example_payload\<lparr> p_id := Some ''a'', p_createdAt := Some ''2025-01-01T00:00:00Z'' \<rparr>"

definition task_a :: ITask where
  "task_a =
     \<lparr> task_id = ''a'', title = ''Preparar'', description = None,
       createdAt = ''2025-01-01T00:00:00Z'', dueDate = None, difficulty = ''medium'',
       priority = JNumber (Finite 3), status = ''todo'', tags = Some [], relatedIds = Some [],
       deleted = Some False \<rparr>"

text \<open>A second payload with the same id, and the task it makes.\<close>

definition payload_b :: payload where
  "payload_b = payload_a\<lparr> p_title := JString ''Entregar'' \<rparr>"

definition task_b :: ITask where
  "task_b = task_a\<lparr> title := ''Entregar'' \<rparr>"

text \<open>The manager after one \<open>add\<close>, and after the second with the same id.\<close>

definition manager_one :: TaskManager where
  "manager_one = snd (TaskManager_add ''u1'' ''2025-01-02T00:00:00Z'' payload_a fresh_manager)"

definition manager_two :: TaskManager where
  "manager_two = snd (TaskManager_add ''u2'' ''2025-01-03T00:00:00Z'' payload_b manager_one)"

text \<open>Changes that hold a creation time and an id.\<close>

definition no_changes :: changes where
  "no_changes = \<lparr> c_id = Absent, c_title = Absent, c_description = Absent, c_createdAt = Absent,
     c_dueDate = Absent, c_difficulty = Absent, c_priority = Absent, c_status = Absent,
     c_tags = Absent, c_relatedIds = Absent, c_deleted = Absent \<rparr>"

definition changes_createdAt :: changes where
  "changes_createdAt =
     no_changes\<lparr> c_id := Present ''z'', c_createdAt := Present ''1999-12-31T00:00:00Z'' \<rparr>"

text \<open>
  A stored array of four elements: a task, \<open>null\<close>, the number 5, and a record whose
  id is a number.
\<close>

definition disk_mixed :: disk where
  "disk_mixed =
     \<lparr> contents = Stored
         [stringify task_a, Primitive JNull, Primitive (JNumber (Finite 5)),
          Object \<lparr> r_id = JNumber (Finite 7), r_title = JString ''sin id'', r_description = None,
                   r_createdAt = ''2025-01-01T00:00:00Z'', r_dueDate = None,
                   r_difficulty = ''low'', r_priority = JNumber (Finite 1), r_status = ''todo'', r_tags = None,
                   r_relatedIds = None, r_deleted = None \<rparr>],
       read_error = None, write_error = None, writes = 0 \<rparr>"

text \<open>
  A payload whose priority is \<open>NaN\<close>, the task the constructor makes of it, and that
  task with the priority \<open>null\<close>.
\<close>

definition payload_nan :: payload where
  "payload_nan = payload_a\<lparr> p_priority := JNumber NaN \<rparr>"

definition task_nan :: ITask where
  "task_nan = task_a\<lparr> priority := JNumber NaN \<rparr>"

definition task_null :: ITask where
  "task_null = task_a\<lparr> priority := JNull \<rparr>"

text \<open>An object with an id and no title, as \<open>update\<close> with an undefined title leaves one.\<close>

definition raw_untitled :: raw_task where
  "raw_untitled = (to_raw task_b)\<lparr> r_title := JUndefined \<rparr>"

text \<open>A disk whose file is written but cannot be read.\<close>

definition disk_write_only :: disk where
  "disk_write_only =
     \<lparr> contents = Missing, read_error = Some ''EACCES'', write_error = None, writes = 0 \<rparr>"

section \<open>Construction\<close>

lemma title_check:
  "(\<not> truthy v \<or> js_typeof v \<noteq> ''string'') = (\<not> (\<exists>s. v = JString s \<and> s \<noteq> []))"
  by (cases v) auto

text \<open>
  C1. Constructing a Task whose title is absent or empty (or anything but a non-empty
  string) fails with the validation error. With a non-empty title the construction
  succeeds, every absent field takes its default (difficulty medium, priority 3, status
  todo, deleted false, tags and relatedIds empty, the id and the creation time from the
  generator and the clock), and every supplied field is kept.
\<close>

theorem Task_new_validates_and_defaults:
  "(p_title p = JUndefined \<or> p_title p = JString [] \<longrightarrow>
      Task_new uuid now p = Inl ValidationError)
   \<and> ((\<nexists>s. p_title p = JString s \<and> s \<noteq> []) \<longrightarrow> Task_new uuid now p = Inl ValidationError)
   \<and> (\<forall>s. p_title p = JString s \<and> s \<noteq> [] \<longrightarrow>
        (\<exists>t. Task_new uuid now p = Inr t
           \<and> title t = s
           \<and> task_id t = (case p_id p of None \<Rightarrow> uuid | Some i \<Rightarrow> i)
           \<and> createdAt t = (case p_createdAt p of None \<Rightarrow> now | Some c \<Rightarrow> c)
           \<and> description t = p_description p
           \<and> dueDate t = p_dueDate p
           \<and> difficulty t = (case p_difficulty p of None \<Rightarrow> ''medium'' | Some d \<Rightarrow> d)
           \<and> priority t = (case p_priority p of JNumber n \<Rightarrow> JNumber n | _ \<Rightarrow> JNumber (Finite 3))
           \<and> status t = (case p_status p of None \<Rightarrow> ''todo'' | Some d \<Rightarrow> d)
           \<and> deleted t = Some (case p_deleted p of None \<Rightarrow> False | Some b \<Rightarrow> b)
           \<and> tags t = Some (case p_tags p of None \<Rightarrow> [] | Some x \<Rightarrow> x)
           \<and> relatedIds t = Some (case p_relatedIds p of None \<Rightarrow> [] | Some x \<Rightarrow> x)))"
  unfolding Task_new_def title_check
  by (auto simp: TaskDifficulty_MEDIUM_def TaskStatus_TODO_def split: option.splits jsval.splits)

theorem Task_new_validates_and_defaults_witness:
  "Task_new ''u1'' ''2025-01-01T00:00:00.000Z'' (example_payload\<lparr>p_title := JString []\<rparr>)
     = Inl ValidationError
   \<and> Task_new ''u1'' ''2025-01-01T00:00:00.000Z'' (example_payload\<lparr>p_title := JUndefined\<rparr>)
     = Inl ValidationError
   \<and> Task_new ''u1'' ''2025-01-01T00:00:00.000Z'' example_payload
     = Inr \<lparr> task_id = ''u1'', title = ''Preparar'', description = None,
             createdAt = ''2025-01-01T00:00:00.000Z'', dueDate = None, difficulty = ''medium'',
             priority = JNumber (Finite 3), status = ''todo'', tags = Some [],
             relatedIds = Some [],
             deleted = Some False \<rparr>"
  using Task_new_validates_and_defaults
          [of "example_payload\<lparr>p_title := JString []\<rparr>" "''u1''" "''2025-01-01T00:00:00.000Z''"]
        Task_new_validates_and_defaults
          [of "example_payload\<lparr>p_title := JUndefined\<rparr>" "''u1''" "''2025-01-01T00:00:00.000Z''"]
        Task_new_validates_and_defaults
          [of example_payload "''u1''" "''2025-01-01T00:00:00.000Z''"]
  by (auto simp: example_payload_def)

section \<open>Predicates and comparators\<close>

lemmas ex_defs = example_parse_def example_task_def task_jan1_def task_jan3_def task_no_due_def
  task_bad_due_def

lemma getTime_cases: "getTime parse s = NaN \<or> (\<exists>ms. getTime parse s = Finite ms)"
  by (auto simp: getTime_def split: option.splits)

lemma getTime_empty: "getTime parse [] = NaN"
  by (simp add: getTime_def)

text \<open>
  C6. \<open>isOverdue(now)(t)\<close> holds exactly when the task has a due date whose instant is
  strictly earlier than the instant of \<open>now\<close>; a task without a due date is never
  overdue. When both strings are dates, the answer is the comparison of their instants.
\<close>

theorem isOverdue_iff:
  "(isOverdue parse nowIso t \<longleftrightarrow>
      (\<exists>d. dueDate t = Some d \<and> js_less (getTime parse d) (getTime parse nowIso)))
   \<and> (dueDate t = None \<longrightarrow> \<not> isOverdue parse nowIso t)
   \<and> (\<forall>d a b. dueDate t = Some d \<and> getTime parse d = Finite a \<and> getTime parse nowIso = Finite b
        \<longrightarrow> isOverdue parse nowIso t = (a < b))"
  by (auto simp: isOverdue_def getTime_empty split: option.splits)

text \<open>
  The specification's example: due on 1 January, asked on 2 January; a task due on
  3 January and a task without a due date are not overdue then.
\<close>

theorem isOverdue_iff_witness:
  "isOverdue example_parse ''2025-01-02T00:00:00Z'' task_jan1
   \<and> \<not> isOverdue example_parse ''2025-01-02T00:00:00Z'' task_jan3
   \<and> \<not> isOverdue example_parse ''2025-01-02T00:00:00Z'' task_no_due"
  using isOverdue_iff [of example_parse "''2025-01-02T00:00:00Z''" task_jan1]
        isOverdue_iff [of example_parse "''2025-01-02T00:00:00Z''" task_jan3]
        isOverdue_iff [of example_parse "''2025-01-02T00:00:00Z''" task_no_due]
  by (simp add: ex_defs getTime_def)

subsection \<open>Sorting\<close>

lemma mset_insert_sorted: "mset (insert_sorted c x ys) = add_mset x (mset ys)"
  by (induction ys) auto

lemma mset_Array_sort: "mset (Array_sort c xs) = mset xs"
  by (induction xs) (auto simp: mset_insert_sorted)

lemma set_insert_sorted: "set (insert_sorted c x ys) = insert x (set ys)"
  using mset_insert_sorted [of c x ys, THEN arg_cong [where f = set_mset]] by simp

lemma set_Array_sort: "set (Array_sort c xs) = set xs"
  using mset_Array_sort [of c xs, THEN arg_cong [where f = set_mset]] by simp

lemma not_positive_minus: "a \<noteq> NaN \<Longrightarrow> b \<noteq> NaN \<Longrightarrow> \<not> positive (js_minus a b) \<Longrightarrow> js_leq a b"
  by (cases a; cases b) auto

lemma positive_minus: "positive (js_minus a b) \<Longrightarrow> js_leq b a"
  by (cases a; cases b) auto

lemma js_leq_trans: "js_leq a b \<Longrightarrow> js_leq b c \<Longrightarrow> js_leq a c"
  by (cases a; cases b; cases c) auto

lemma sorted_insert_sorted:
  "\<forall>t \<in> set (x # ys). k t \<noteq> NaN \<Longrightarrow> sorted_wrt (\<lambda>a b. js_leq (k a) (k b)) ys \<Longrightarrow>
   sorted_wrt (\<lambda>a b. js_leq (k a) (k b)) (insert_sorted (\<lambda>a b. js_minus (k a) (k b)) x ys)"
proof (induction ys)
  case Nil
  then show ?case by simp
next
  case (Cons y ys)
  show ?case
  proof (cases "positive (js_minus (k x) (k y))")
    case True
    then have yx: "js_leq (k y) (k x)" by (rule positive_minus)
    have "sorted_wrt (\<lambda>a b. js_leq (k a) (k b)) (insert_sorted (\<lambda>a b. js_minus (k a) (k b)) x ys)"
      using Cons by simp
    moreover have "\<forall>z \<in> set (insert_sorted (\<lambda>a b. js_minus (k a) (k b)) x ys). js_leq (k y) (k z)"
      using Cons.prems(2) yx by (auto simp: set_insert_sorted)
    ultimately show ?thesis using True by simp
  next
    case False
    then have xy: "js_leq (k x) (k y)" using Cons.prems(1) by (intro not_positive_minus) auto
    then have "\<forall>z \<in> set ys. js_leq (k x) (k z)"
      using Cons.prems(2) by (auto intro: js_leq_trans)
    then show ?thesis using False xy Cons.prems(2) by simp
  qed
qed

lemma sorted_Array_sort:
  "\<forall>t \<in> set xs. k t \<noteq> NaN \<Longrightarrow>
   sorted_wrt (\<lambda>a b. js_leq (k a) (k b)) (Array_sort (\<lambda>a b. js_minus (k a) (k b)) xs)"
proof (induction xs)
  case Nil
  then show ?case by simp
next
  case (Cons x xs)
  then have "sorted_wrt (\<lambda>a b. js_leq (k a) (k b)) (Array_sort (\<lambda>a b. js_minus (k a) (k b)) xs)"
    by simp
  moreover have "\<forall>t \<in> set (x # Array_sort (\<lambda>a b. js_minus (k a) (k b)) xs). k t \<noteq> NaN"
    using Cons.prems by (simp add: set_Array_sort)
  ultimately show ?case by (simp add: sorted_insert_sorted del: set_simps)
qed

lemma sorted_wrt_partition:
  "sorted_wrt R ys \<Longrightarrow> (\<And>a b. a \<in> set ys \<Longrightarrow> b \<in> set ys \<Longrightarrow> \<not> P a \<Longrightarrow> P b \<Longrightarrow> \<not> R a b) \<Longrightarrow>
   ys = filter P ys @ filter (\<lambda>t. \<not> P t) ys"
proof (induction ys)
  case Nil
  then show ?case by simp
next
  case (Cons y ys)
  show ?case
  proof (cases "P y")
    case True
    then show ?thesis using Cons by simp
  next
    case False
    then have "\<forall>z \<in> set ys. \<not> P z" using Cons.prems by auto
    then have "filter P ys = []" "filter (\<lambda>t. \<not> P t) ys = ys" by (auto simp: filter_empty_conv filter_id_conv)
    then show ?thesis using False by simp
  qed
qed

lemma dueOrInfinity_valid:
  assumes "\<forall>d. dueDate t = Some d \<longrightarrow> getTime parse d \<noteq> NaN"
  shows "dueOrInfinity parse t = (case dueDate t of None \<Rightarrow> Infinity | Some d \<Rightarrow> getTime parse d)"
    and "dueOrInfinity parse t \<noteq> NaN"
  using assms by (auto simp: dueOrInfinity_def getTime_empty split: option.splits)

text \<open>
  C7, as the code has it. When every due date of the list is a date (its instant is not
  \<open>NaN\<close>), \<open>sortByDueDate\<close> returns the same tasks in a new order: first the
  tasks with a due date, ascending by its instant, then the tasks without one. The argument
  is a value here, so the input is as it was.
\<close>

theorem sortByDueDate_valid_dates:
  assumes valid: "\<forall>t \<in> set tasks. \<forall>d. dueDate t = Some d \<longrightarrow> getTime parse d \<noteq> NaN"
  shows "mset (sortByDueDate parse tasks) = mset tasks
     \<and> sortByDueDate parse tasks =
         filter (\<lambda>t. dueDate t \<noteq> None) (sortByDueDate parse tasks)
         @ filter (\<lambda>t. dueDate t = None) (sortByDueDate parse tasks)
     \<and> sorted_wrt (\<lambda>a b. js_leq (dueTime parse a) (dueTime parse b))
         (filter (\<lambda>t. dueDate t \<noteq> None) (sortByDueDate parse tasks))"
proof -
  let ?k = "dueOrInfinity parse"
  let ?ys = "sortByDueDate parse tasks"
  have perm: "mset ?ys = mset tasks"
    by (simp add: sortByDueDate_def mset_Array_sort)
  have set_ys: "set ?ys = set tasks"
    by (simp add: sortByDueDate_def set_Array_sort)
  have "\<forall>t \<in> set tasks. ?k t \<noteq> NaN"
    using valid by (simp add: dueOrInfinity_valid(2))
  then have srt: "sorted_wrt (\<lambda>a b. js_leq (?k a) (?k b)) ?ys"
    unfolding sortByDueDate_def by (rule sorted_Array_sort)
  have sep: "\<not> js_leq (?k a) (?k b)"
    if "a \<in> set ?ys" "b \<in> set ?ys" "\<not> dueDate a \<noteq> None" "dueDate b \<noteq> None" for a b
  proof -
    from that obtain d where d: "dueDate b = Some d" by auto
    with that valid set_ys have "getTime parse d \<noteq> NaN" by auto
    then obtain ms where "getTime parse d = Finite ms" using getTime_cases [of parse d] by auto
    with d that valid set_ys have "?k b = Finite ms" by (simp add: dueOrInfinity_valid(1))
    moreover from that have "?k a = Infinity" by (simp add: dueOrInfinity_def)
    ultimately show ?thesis by simp
  qed
  have part: "?ys = filter (\<lambda>t. dueDate t \<noteq> None) ?ys @ filter (\<lambda>t. \<not> dueDate t \<noteq> None) ?ys"
    using srt sep by (rule sorted_wrt_partition)
  have "sorted_wrt (\<lambda>a b. js_leq (?k a) (?k b)) (filter (\<lambda>t. dueDate t \<noteq> None) ?ys)"
    using srt by (rule sorted_wrt_filter)
  then have asc: "sorted_wrt (\<lambda>a b. js_leq (dueTime parse a) (dueTime parse b))
      (filter (\<lambda>t. dueDate t \<noteq> None) ?ys)"
  proof (rule sorted_wrt_mono_rel [rotated])
    fix a b
    assume a: "a \<in> set (filter (\<lambda>t. dueDate t \<noteq> None) ?ys)"
       and b: "b \<in> set (filter (\<lambda>t. dueDate t \<noteq> None) ?ys)"
       and le: "js_leq (?k a) (?k b)"
    have "?k a = dueTime parse a" "?k b = dueTime parse b"
      using a b valid set_ys by (auto simp: dueOrInfinity_valid(1) dueTime_def)
    with le show "js_leq (dueTime parse a) (dueTime parse b)" by simp
  qed
  show ?thesis using perm part asc by simp
qed

text \<open>Three tasks: none due, due 3 January, due 1 January.\<close>

theorem sortByDueDate_valid_dates_witness:
  "sortByDueDate example_parse [task_no_due, task_jan3, task_jan1]
      = [task_jan1, task_jan3, task_no_due]
   \<and> filter (\<lambda>t. dueDate t \<noteq> None) (sortByDueDate example_parse [task_no_due, task_jan3, task_jan1])
      = [task_jan1, task_jan3]
   \<and> js_leq (dueTime example_parse task_jan1) (dueTime example_parse task_jan3)"
proof -
  have valid: "\<forall>t \<in> set [task_no_due, task_jan3, task_jan1].
      \<forall>d. dueDate t = Some d \<longrightarrow> getTime example_parse d \<noteq> NaN"
    by (simp add: ex_defs getTime_def)
  have res: "sortByDueDate example_parse [task_no_due, task_jan3, task_jan1]
      = [task_jan1, task_jan3, task_no_due]"
    by (simp add: sortByDueDate_def dueOrInfinity_def getTime_def ex_defs)
  have due: "dueDate task_jan1 \<noteq> None" "dueDate task_jan3 \<noteq> None" "dueDate task_no_due = None"
    by (simp_all add: ex_defs)
  show ?thesis
    using sortByDueDate_valid_dates [OF valid] due unfolding res by simp
qed

text \<open>
  C7 as stated, for every task list, fails: a due date that is no date compares as equal
  to any other, and stands between a task due on 3 January and a task due on 1 January
  that are left in that order.
\<close>

theorem sortByDueDate_counterexample:
  "sortByDueDate example_parse [task_jan3, task_bad_due, task_jan1]
      = [task_jan3, task_bad_due, task_jan1]
   \<and> dueDate task_jan3 = Some ''2025-01-03T00:00:00Z''
   \<and> dueDate task_jan1 = Some ''2025-01-01T00:00:00Z''
   \<and> js_less (getTime example_parse ''2025-01-01T00:00:00Z'')
        (getTime example_parse ''2025-01-03T00:00:00Z'')
   \<and> \<not> sorted_wrt (\<lambda>a b. js_leq (dueTime example_parse a) (dueTime example_parse b))
        (filter (\<lambda>t. dueDate t \<noteq> None)
           (sortByDueDate example_parse [task_jan3, task_bad_due, task_jan1]))"
  by (simp add: sortByDueDate_def dueOrInfinity_def dueTime_def getTime_def ex_defs)

text \<open>
  C8. \<open>sortByDifficulty\<close> returns the same tasks, ascending by rank; the ranks are
  low 1, medium 2, high 3, and any other difficulty ranks 2.
\<close>

theorem sortByDifficulty_ranks:
  "mset (sortByDifficulty tasks) = mset tasks
   \<and> sorted (map (\<lambda>t. difficultyRank (difficulty t)) (sortByDifficulty tasks))
   \<and> difficultyRank ''low'' = 1 \<and> difficultyRank ''medium'' = 2 \<and> difficultyRank ''high'' = 3
   \<and> (d \<noteq> ''low'' \<and> d \<noteq> ''medium'' \<and> d \<noteq> ''high'' \<longrightarrow> difficultyRank d = 2)"
proof -
  let ?k = "\<lambda>t. Finite (difficultyRank (difficulty t))"
  have cmp: "(\<lambda>a b. Finite (difficultyRank (difficulty a) - difficultyRank (difficulty b)))
      = (\<lambda>a b. js_minus (?k a) (?k b))"
    by simp
  have "sorted_wrt (\<lambda>a b. js_leq (?k a) (?k b)) (sortByDifficulty tasks)"
    unfolding sortByDifficulty_def cmp by (rule sorted_Array_sort) simp
  then have "sorted (map (\<lambda>t. difficultyRank (difficulty t)) (sortByDifficulty tasks))"
    by (simp add: sorted_map)
  moreover have "mset (sortByDifficulty tasks) = mset tasks"
    by (simp add: sortByDifficulty_def mset_Array_sort)
  ultimately show ?thesis
    by (simp add: difficultyRank_def TaskDifficulty_LOW_def TaskDifficulty_MEDIUM_def
        TaskDifficulty_HIGH_def)
qed

text \<open>Difficulties high, \<open>urgent\<close> (not a variant) and low.\<close>

theorem sortByDifficulty_ranks_witness:
  "sortByDifficulty [task_jan1, task_no_due, task_jan3] = [task_jan3, task_no_due, task_jan1]
   \<and> map (\<lambda>t. difficultyRank (difficulty t)) (sortByDifficulty [task_jan1, task_no_due, task_jan3])
       = [1, 2, 3]
   \<and> difficultyRank ''urgent'' = 2"
  using sortByDifficulty_ranks [of "[task_jan1, task_no_due, task_jan3]" "''urgent''"]
  by (simp add: sortByDifficulty_def difficultyRank_def TaskDifficulty_LOW_def
      TaskDifficulty_MEDIUM_def TaskDifficulty_HIGH_def ex_defs)

section \<open>Repository round trip\<close>

lemma json_value_finite:
  "v \<noteq> JNumber NaN \<Longrightarrow> v \<noteq> JNumber Infinity \<Longrightarrow> v \<noteq> JNumber NegInfinity \<Longrightarrow> json_value v = v"
  by (cases v rule: json_value.cases) auto

lemma as_ITask_stringify:
  "as_ITask (stringify t) = Some (t\<lparr>priority := json_value (priority t)\<rparr>)"
  by (simp add: stringify_def json_task_def to_raw_def)

lemma minimalShape_stringify: "minimalShape (stringify t)"
  by (simp add: minimalShape_def stringify_def json_task_def to_raw_def)

lemma stringify_map: "map ((\<lambda>r. Object (json_task r)) \<circ> to_raw) ts = map stringify ts"
  by (induction ts) (simp_all add: stringify_def)

lemma typeof_string: "js_typeof v = ''string'' \<longleftrightarrow> (\<exists>s. v = JString s)"
  by (cases v) auto

lemma minimalShape_iff:
  "minimalShape e \<longleftrightarrow> (\<exists>r i s. e = Object r \<and> r_id r = JString i \<and> r_title r = JString s)"
  by (cases e) (auto simp: minimalShape_def typeof_string)

lemma minimalShape_cast:
  "minimalShape e \<Longrightarrow> \<exists>t. as_ITask e = Some t \<and> Object (to_raw t) = e"
  by (auto simp: minimalShape_iff to_raw_def)

lemma read_stringified:
  "List.map_filter as_ITask (filter minimalShape (map stringify ts))
     = map (\<lambda>t. t\<lparr>priority := json_value (priority t)\<rparr>) ts"
  by (induction ts) (auto simp: List.map_filter_simps as_ITask_stringify minimalShape_stringify)

lemma cast_passing:
  "map (\<lambda>t. Object (to_raw t)) (List.map_filter as_ITask (filter minimalShape es))
     = filter minimalShape es"
proof (induction es)
  case Nil
  then show ?case by (simp add: List.map_filter_simps)
next
  case (Cons e es)
  show ?case
  proof (cases "minimalShape e")
    case True
    then obtain t where "as_ITask e = Some t" "Object (to_raw t) = e"
      using minimalShape_cast by blast
    then show ?thesis using True Cons by (simp add: List.map_filter_simps)
  next
    case False
    then show ?thesis using Cons by simp
  qed
qed

lemma read_written:
  "map to_raw (List.map_filter as_ITask (filter minimalShape (map (\<lambda>r. Object (json_task r)) rs)))
     = filter (\<lambda>r. minimalShape (Object r)) (map json_task rs)"
proof -
  let ?ts = "List.map_filter as_ITask (filter minimalShape (map (\<lambda>r. Object (json_task r)) rs))"
  have "map Object (map to_raw ?ts) = filter minimalShape (map (\<lambda>r. Object (json_task r)) rs)"
    using cast_passing [of "map (\<lambda>r. Object (json_task r)) rs"] by (simp add: comp_def)
  also have "\<dots> = map Object (filter (\<lambda>r. minimalShape (Object r)) (map json_task rs))"
    by (simp add: filter_map comp_def)
  finally have "map Object (map to_raw ?ts)
      = map Object (filter (\<lambda>r. minimalShape (Object r)) (map json_task rs))" .
  moreover have "inj Object" by (simp add: inj_on_def)
  ultimately show ?thesis by (simp only: inj_map_eq_map)
qed

text \<open>
  C9, as the code has it. When the repository takes the write and the file can be read,
  \<open>readAll()\<close> after \<open>writeAll(tasks)\<close> returns, in the same order, the objects written
  that have a text \<open>id\<close> and a text \<open>title\<close>, each with a priority that is
  \<open>NaN\<close> or infinite replaced by \<open>null\<close>; for well-typed tasks nothing is dropped,
  and when every priority is finite the tasks read are the tasks written. When the file
  cannot be read, \<open>readAll()\<close> throws after the write too. Whatever array a readable
  file holds, \<open>readAll\<close> returns without an error, and what it returns is, record for
  record, the elements that pass the minimal shape check: those that are records with a
  text \<open>id\<close> and a text \<open>title\<close>. The others are dropped.
\<close>

theorem writeAll_readAll_roundtrip:
  "(write_error d = None \<longrightarrow>
      (\<exists>d'. TaskRepository_writeAll rs d = Inr d'
         \<and> (read_error d = None \<longrightarrow>
              (\<exists>ts. TaskRepository_readAll d' = Inr ts
                 \<and> map to_raw ts = filter (\<lambda>r. minimalShape (Object r)) (map json_task rs)))
         \<and> (\<forall>code. read_error d = Some code \<and> code \<noteq> ''ENOENT'' \<longrightarrow>
              TaskRepository_readAll d' = Inl (FsError code))))
   \<and> (write_error d = None \<and> read_error d = None \<longrightarrow>
        (\<exists>d'. TaskRepository_writeAll (map to_raw tasks) d = Inr d'
           \<and> TaskRepository_readAll d'
               = Inr (map (\<lambda>t. t\<lparr>priority := json_value (priority t)\<rparr>) tasks)
           \<and> ((\<forall>t \<in> set tasks. priority t \<noteq> JNumber NaN \<and> priority t \<noteq> JNumber Infinity
                   \<and> priority t \<noteq> JNumber NegInfinity) \<longrightarrow>
                TaskRepository_readAll d' = Inr tasks)))
   \<and> (\<forall>es. read_error d = None \<and> contents d = Stored es \<longrightarrow>
        (\<exists>ts. TaskRepository_readAll d = Inr ts
           \<and> map (\<lambda>t. Object (to_raw t)) ts = filter minimalShape es))
   \<and> (\<forall>e. minimalShape e \<longleftrightarrow>
        (\<exists>r i s. e = Object r \<and> r_id r = JString i \<and> r_title r = JString s))"
proof (intro conjI allI impI)
  assume "write_error d = None"
  then show "\<exists>d'. TaskRepository_writeAll rs d = Inr d'
         \<and> (read_error d = None \<longrightarrow>
              (\<exists>ts. TaskRepository_readAll d' = Inr ts
                 \<and> map to_raw ts = filter (\<lambda>r. minimalShape (Object r)) (map json_task rs)))
         \<and> (\<forall>code. read_error d = Some code \<and> code \<noteq> ''ENOENT'' \<longrightarrow>
              TaskRepository_readAll d' = Inl (FsError code))"
    by (simp add: TaskRepository_writeAll_def TaskRepository_readAll_def read_written)
next
  assume a: "write_error d = None \<and> read_error d = None"
  let ?d = "d\<lparr>contents := Stored (map stringify tasks), writes := writes d + 1\<rparr>"
  have w: "TaskRepository_writeAll (map to_raw tasks) d = Inr ?d"
    using a by (simp add: TaskRepository_writeAll_def stringify_map)
  have r: "TaskRepository_readAll ?d
      = Inr (map (\<lambda>t. t\<lparr>priority := json_value (priority t)\<rparr>) tasks)"
    using a by (simp add: TaskRepository_readAll_def read_stringified)
  have "map (\<lambda>t. t\<lparr>priority := json_value (priority t)\<rparr>) tasks = tasks"
    if "\<forall>t \<in> set tasks. priority t \<noteq> JNumber NaN \<and> priority t \<noteq> JNumber Infinity
          \<and> priority t \<noteq> JNumber NegInfinity"
    using that by (intro map_idI) (simp add: json_value_finite)
  with w r show "\<exists>d'. TaskRepository_writeAll (map to_raw tasks) d = Inr d'
           \<and> TaskRepository_readAll d'
               = Inr (map (\<lambda>t. t\<lparr>priority := json_value (priority t)\<rparr>) tasks)
           \<and> ((\<forall>t \<in> set tasks. priority t \<noteq> JNumber NaN \<and> priority t \<noteq> JNumber Infinity
                   \<and> priority t \<noteq> JNumber NegInfinity) \<longrightarrow>
                TaskRepository_readAll d' = Inr tasks)"
    by auto
next
  fix es assume "read_error d = None \<and> contents d = Stored es"
  then show "\<exists>ts. TaskRepository_readAll d = Inr ts
      \<and> map (\<lambda>t. Object (to_raw t)) ts = filter minimalShape es"
    by (simp add: TaskRepository_readAll_def cast_passing)
next
  fix e show "minimalShape e \<longleftrightarrow>
        (\<exists>r i s. e = Object r \<and> r_id r = JString i \<and> r_title r = JString s)"
    by (rule minimalShape_iff)
qed

text \<open>
  Three objects written to an empty directory, a task, an object without a title and a
  task with the priority \<open>NaN\<close>: the first is read as written, the second is dropped,
  the third is read with the priority \<open>null\<close>. Two tasks with finite priorities are
  read as written. A file that cannot be read makes \<open>readAll\<close> throw after an accepted
  write. Of the stored array of a task, \<open>null\<close>, a number and a record with a numeric
  id, the task alone is read.
\<close>

theorem writeAll_readAll_roundtrip_witness:
  "TaskRepository_writeAll [to_raw task_a, raw_untitled, to_raw task_nan] (repo fresh_manager)
      = Inr \<lparr> contents = Stored [stringify task_a, Object raw_untitled, stringify task_nan],
               read_error = None, write_error = None, writes = 1 \<rparr>
   \<and> TaskRepository_readAll
        \<lparr> contents = Stored [stringify task_a, Object raw_untitled, stringify task_nan],
          read_error = None, write_error = None, writes = 1 \<rparr>
      = Inr [task_a, task_null]
   \<and> TaskRepository_writeAll (map to_raw [task_a, task_b]) (repo fresh_manager)
      = Inr \<lparr> contents = Stored [stringify task_a, stringify task_b],
               read_error = None, write_error = None, writes = 1 \<rparr>
   \<and> TaskRepository_readAll
        \<lparr> contents = Stored [stringify task_a, stringify task_b],
          read_error = None, write_error = None, writes = 1 \<rparr>
      = Inr [task_a, task_b]
   \<and> TaskRepository_writeAll [to_raw task_a] disk_write_only
      = Inr \<lparr> contents = Stored [stringify task_a],
               read_error = Some ''EACCES'', write_error = None, writes = 1 \<rparr>
   \<and> TaskRepository_readAll
        \<lparr> contents = Stored [stringify task_a],
          read_error = Some ''EACCES'', write_error = None, writes = 1 \<rparr>
      = Inl (FsError ''EACCES'')
   \<and> TaskRepository_readAll disk_mixed = Inr [task_a]"
proof -
  let ?d0 = "repo fresh_manager"
  have w: "write_error ?d0 = None" and r: "read_error ?d0 = None"
    by (simp_all add: fresh_manager_def)
  have wr: "write_error ?d0 = None \<and> read_error ?d0 = None" using w r by simp
  have fin: "\<forall>t \<in> set [task_a, task_b]. priority t \<noteq> JNumber NaN \<and> priority t \<noteq> JNumber Infinity
      \<and> priority t \<noteq> JNumber NegInfinity"
    by (simp add: task_a_def task_b_def)
  have 1: "TaskRepository_writeAll [to_raw task_a, raw_untitled, to_raw task_nan] ?d0
      = Inr \<lparr> contents = Stored [stringify task_a, Object raw_untitled, stringify task_nan],
               read_error = None, write_error = None, writes = 1 \<rparr>"
    by (simp add: TaskRepository_writeAll_def fresh_manager_def stringify_def json_task_def
        raw_untitled_def to_raw_def task_a_def task_b_def)
  have sel: "filter (\<lambda>r. minimalShape (Object r))
        (map json_task [to_raw task_a, raw_untitled, to_raw task_nan])
      = [to_raw task_a, to_raw task_null]"
    by (simp add: minimalShape_def json_task_def raw_untitled_def to_raw_def task_a_def
        task_b_def task_nan_def task_null_def)
  note first = writeAll_readAll_roundtrip
    [where d = ?d0 and rs = "[to_raw task_a, raw_untitled, to_raw task_nan]" and tasks = "[]",
      THEN conjunct1, rule_format, OF w]
  then obtain d' where d': "TaskRepository_writeAll [to_raw task_a, raw_untitled, to_raw task_nan] ?d0
      = Inr d'"
    and rd: "read_error ?d0 = None \<longrightarrow>
      (\<exists>ts. TaskRepository_readAll d' = Inr ts
         \<and> map to_raw ts = filter (\<lambda>r. minimalShape (Object r))
             (map json_task [to_raw task_a, raw_untitled, to_raw task_nan]))"
    by (elim exE conjE)
  from d' 1 have "d' = \<lparr> contents = Stored [stringify task_a, Object raw_untitled, stringify task_nan],
      read_error = None, write_error = None, writes = 1 \<rparr>"
    by simp
  with rd r obtain ts where ts: "TaskRepository_readAll
        \<lparr> contents = Stored [stringify task_a, Object raw_untitled, stringify task_nan],
          read_error = None, write_error = None, writes = 1 \<rparr> = Inr ts"
    and "map to_raw ts = filter (\<lambda>r. minimalShape (Object r))
        (map json_task [to_raw task_a, raw_untitled, to_raw task_nan])"
    by blast
  then have "map to_raw ts = map to_raw [task_a, task_null]" using sel by simp
  moreover have "inj to_raw"
    by (rule injI) (simp add: to_raw_def ITask.equality)
  ultimately have "ts = [task_a, task_null]" by (simp only: inj_map_eq_map)
  with ts have 2: "TaskRepository_readAll
        \<lparr> contents = Stored [stringify task_a, Object raw_untitled, stringify task_nan],
          read_error = None, write_error = None, writes = 1 \<rparr> = Inr [task_a, task_null]"
    by simp
  have 3: "TaskRepository_writeAll (map to_raw [task_a, task_b]) ?d0
      = Inr \<lparr> contents = Stored [stringify task_a, stringify task_b],
               read_error = None, write_error = None, writes = 1 \<rparr>"
    by (simp add: TaskRepository_writeAll_def fresh_manager_def stringify_def)
  note second = writeAll_readAll_roundtrip
    [where d = ?d0 and rs = "[]" and tasks = "[task_a, task_b]",
      THEN conjunct2, THEN conjunct1, rule_format, OF wr]
  then obtain d2 where d2: "TaskRepository_writeAll (map to_raw [task_a, task_b]) ?d0 = Inr d2"
    and same: "(\<forall>t \<in> set [task_a, task_b]. priority t \<noteq> JNumber NaN \<and> priority t \<noteq> JNumber Infinity
        \<and> priority t \<noteq> JNumber NegInfinity) \<longrightarrow> TaskRepository_readAll d2 = Inr [task_a, task_b]"
    by (elim exE conjE)
  from d2 3 have "d2 = \<lparr> contents = Stored [stringify task_a, stringify task_b],
      read_error = None, write_error = None, writes = 1 \<rparr>"
    by simp
  with same fin have 4: "TaskRepository_readAll
        \<lparr> contents = Stored [stringify task_a, stringify task_b],
          read_error = None, write_error = None, writes = 1 \<rparr> = Inr [task_a, task_b]"
    by blast
  have 5: "TaskRepository_writeAll [to_raw task_a] disk_write_only
      = Inr \<lparr> contents = Stored [stringify task_a],
               read_error = Some ''EACCES'', write_error = None, writes = 1 \<rparr>"
    by (simp add: TaskRepository_writeAll_def disk_write_only_def stringify_def)
  have 6: "TaskRepository_readAll
        \<lparr> contents = Stored [stringify task_a],
          read_error = Some ''EACCES'', write_error = None, writes = 1 \<rparr>
      = Inl (FsError ''EACCES'')"
    by (simp add: TaskRepository_readAll_def)
  have 7: "TaskRepository_readAll disk_mixed = Inr [task_a]"
    by (simp add: TaskRepository_readAll_def disk_mixed_def minimalShape_def stringify_def
        json_task_def to_raw_def task_a_def List.map_filter_simps)
  show ?thesis using 1 2 3 4 5 6 7 by simp
qed

text \<open>
  C9 as stated, the same tasks for every sequence of tasks, fails on a task the constructor
  makes: a payload with the priority \<open>NaN\<close> is accepted (its type is \<open>number\<close>),
  the task is written with the priority \<open>null\<close>, passes the shape check when read,
  and comes back with the priority \<open>null\<close>.
\<close>

theorem roundtrip_nonfinite_priority_counterexample:
  "Task_new ''u1'' ''2025-01-02T00:00:00Z'' payload_nan = Inr task_nan
   \<and> TaskRepository_writeAll [to_raw task_nan] (repo fresh_manager)
      = Inr \<lparr> contents = Stored [stringify task_nan],
               read_error = None, write_error = None, writes = 1 \<rparr>
   \<and> TaskRepository_readAll
        \<lparr> contents = Stored [stringify task_nan],
          read_error = None, write_error = None, writes = 1 \<rparr>
      = Inr [task_null]
   \<and> priority task_nan = JNumber NaN
   \<and> priority task_null = JNull
   \<and> task_null \<noteq> task_nan"
  by (simp add: Task_new_def TaskRepository_writeAll_def TaskRepository_readAll_def
      fresh_manager_def stringify_def json_task_def to_raw_def minimalShape_def
      List.map_filter_simps payload_nan_def payload_a_def example_payload_def
      task_nan_def task_null_def task_a_def TaskDifficulty_MEDIUM_def TaskStatus_TODO_def)

section \<open>Manager operations\<close>

lemma loaded_same: "cache m = Some ts \<Longrightarrow> m\<lparr>cache := Some ts\<rparr> = m"
  by (cases m) auto

lemma with_cache_loaded:
  "collection m = Inr ts \<Longrightarrow> with_cache m body = body ts (m\<lparr>cache := Some ts\<rparr>)"
  by (auto simp: with_cache_def loadIfNeeded_def collection_def loaded_same
      split: option.splits sum.splits)

lemma collection_loaded: "cache m = Some ts \<Longrightarrow> collection m = Inr ts"
  by (simp add: collection_def)

lemma persist_ok:
  "write_error (repo m) = None \<Longrightarrow>
   persist ts x m =
     (Inr x, m\<lparr>cache := Some ts,
               repo := (repo m)\<lparr>contents := Stored (map stringify ts), writes := writes (repo m) + 1\<rparr>\<rparr>)"
  by (simp add: persist_def TaskRepository_writeAll_def stringify_map)

lemma persist_fst:
  "write_error (repo m) = None \<Longrightarrow> fst (persist ts x m) = Inr x"
  by (simp add: persist_ok)

lemma cache_persist: "cache (snd (persist ts x m)) = Some ts"
  by (simp add: persist_def split: sum.splits)

lemma findIndex_None: "findIndex P xs = None \<longleftrightarrow> (\<forall>x \<in> set xs. \<not> P x)"
  by (induction xs) auto

lemma findIndex_Some:
  "findIndex P xs = Some i \<Longrightarrow> i < length xs \<and> P (xs ! i) \<and> (\<forall>j < i. \<not> P (xs ! j))"
proof (induction xs arbitrary: i)
  case Nil
  then show ?case by simp
next
  case (Cons x xs)
  show ?case
  proof (cases "P x")
    case True
    with Cons.prems show ?thesis by simp
  next
    case False
    with Cons.prems obtain k where k: "findIndex P xs = Some k" "i = Suc k" by auto
    from Cons.IH [OF k(1)] False k(2) show ?thesis
      by (auto simp: less_Suc_eq_0_disj)
  qed
qed

lemma manager_one_eq:
  "manager_one = \<lparr> cache = Some [task_a],
       repo = \<lparr> contents = Stored [stringify task_a], read_error = None, write_error = None, writes = 1 \<rparr> \<rparr>"
  by (simp add: manager_one_def TaskManager_add_def with_cache_def loadIfNeeded_def
      TaskRepository_readAll_def persist_def TaskRepository_writeAll_def stringify_def Task_new_def
      fresh_manager_def payload_a_def example_payload_def task_a_def
      TaskDifficulty_MEDIUM_def TaskStatus_TODO_def)

lemma manager_two_eq:
  "manager_two = \<lparr> cache = Some [task_a, task_b],
       repo = \<lparr> contents = Stored [stringify task_a, stringify task_b], read_error = None, write_error = None,
                writes = 2 \<rparr> \<rparr>"
  by (simp add: manager_two_def manager_one_eq TaskManager_add_def with_cache_def loadIfNeeded_def
      persist_def TaskRepository_writeAll_def stringify_def Task_new_def
      payload_a_def payload_b_def example_payload_def task_a_def task_b_def
      TaskDifficulty_MEDIUM_def TaskStatus_TODO_def)

text \<open>
  C10. \<open>add\<close> checks no id: on a collection that holds a task, a payload with that
  task's id and a non-empty title is accepted, and the new task is appended with the same
  id, so that the ids of the collection are no longer distinct.
\<close>

theorem add_accepts_duplicate_id:
  assumes "collection m = Inr ts" and "write_error (repo m) = None"
    and "t \<in> set ts" and "p_id p = Some (task_id t)"
    and "p_title p = JString s" and "s \<noteq> []"
  shows "\<exists>t' m'. TaskManager_add uuid now p m = (Inr t', m')
     \<and> task_id t' = task_id t
     \<and> cache m' = Some (ts @ [t'])
     \<and> \<not> distinct (map task_id (ts @ [t']))"
  using assms
  by (auto simp: TaskManager_add_def with_cache_loaded persist_ok Task_new_def)

text \<open>Adding the second payload with id \<open>a\<close> to the manager that holds one task \<open>a\<close>.\<close>

theorem add_accepts_duplicate_id_witness:
  "TaskManager_add ''u2'' ''2025-01-03T00:00:00Z'' payload_b manager_one = (Inr task_b, manager_two)
   \<and> cache manager_one = Some [task_a]
   \<and> cache manager_two = Some [task_a, task_b]
   \<and> task_id task_a = ''a'' \<and> task_id task_b = ''a''
   \<and> \<not> distinct (map task_id [task_a, task_b])"
proof -
  have c: "collection manager_one = Inr [task_a]"
    by (simp add: manager_one_eq collection_def)
  have w: "write_error (repo manager_one) = None"
    by (simp add: manager_one_eq)
  have i: "p_id payload_b = Some (task_id task_a)" "p_title payload_b = JString ''Entregar''"
    by (simp_all add: payload_b_def payload_a_def example_payload_def task_a_def)
  have "task_a \<in> set [task_a]" "''Entregar'' \<noteq> []" by simp_all
  from add_accepts_duplicate_id [OF c w this(1) i this(2), of "''u2''" "''2025-01-03T00:00:00Z''"]
  obtain t' m' where r: "TaskManager_add ''u2'' ''2025-01-03T00:00:00Z'' payload_b manager_one = (Inr t', m')"
    and d: "task_id t' = task_id task_a" "cache m' = Some ([task_a] @ [t'])"
      "\<not> distinct (map task_id ([task_a] @ [t']))"
    by blast
  from r have m': "m' = manager_two" by (simp add: manager_two_def)
  with d(2) have "t' = task_b" by (simp add: manager_two_eq)
  with r d m' show ?thesis by (simp add: manager_one_eq manager_two_eq task_a_def)
qed

text \<open>
  C2, as the code has it. \<open>hardDelete(id)\<close> removes every task with the id: the
  collection shrinks by the number of tasks that carry it, which is one when exactly one
  task does, and is as it was when none does. When the repository takes the write, the call
  returns whether at least one task had the id: true then, false otherwise.
\<close>

theorem hardDelete_removes_every_match:
  assumes "collection m = Inr ts"
  shows "cache (snd (TaskManager_hardDelete i m)) = Some (filter (\<lambda>t. task_id t \<noteq> i) ts)
     \<and> length (filter (\<lambda>t. task_id t \<noteq> i) ts) + length (filter (\<lambda>t. task_id t = i) ts)
         = length ts
     \<and> (length (filter (\<lambda>t. task_id t = i) ts) = 1 \<longrightarrow>
          length (filter (\<lambda>t. task_id t \<noteq> i) ts) + 1 = length ts)
     \<and> ((\<forall>t \<in> set ts. task_id t \<noteq> i) \<longrightarrow>
          cache (snd (TaskManager_hardDelete i m)) = Some ts)
     \<and> (write_error (repo m) = None \<longrightarrow>
          fst (TaskManager_hardDelete i m) = Inr (\<exists>t \<in> set ts. task_id t = i))"
proof -
  have sum: "length (filter (\<lambda>t. task_id t \<noteq> i) ts) + length (filter (\<lambda>t. task_id t = i) ts)
      = length ts"
    using sum_length_filter_compl [of "\<lambda>t. task_id t = i" ts] by simp
  have less: "length (filter (\<lambda>t. task_id t \<noteq> i) ts) < length ts \<longleftrightarrow> (\<exists>t \<in> set ts. task_id t = i)"
  proof
    assume l: "length (filter (\<lambda>t. task_id t \<noteq> i) ts) < length ts"
    show "\<exists>t \<in> set ts. task_id t = i"
    proof (rule ccontr)
      assume "\<not> (\<exists>t \<in> set ts. task_id t = i)"
      then have "filter (\<lambda>t. task_id t \<noteq> i) ts = ts" by (simp add: filter_id_conv)
      with l show False by simp
    qed
  next
    assume "\<exists>t \<in> set ts. task_id t = i"
    then show "length (filter (\<lambda>t. task_id t \<noteq> i) ts) < length ts"
      by (auto intro: length_filter_less)
  qed
  have same: "(\<forall>t \<in> set ts. task_id t \<noteq> i) \<longrightarrow> filter (\<lambda>t. task_id t \<noteq> i) ts = ts"
    by (simp add: filter_id_conv)
  have c: "cache (snd (TaskManager_hardDelete i m)) = Some (filter (\<lambda>t. task_id t \<noteq> i) ts)"
    by (simp add: TaskManager_hardDelete_def with_cache_loaded [OF assms] cache_persist Let_def)
  have r: "write_error (repo m) = None \<longrightarrow>
      fst (TaskManager_hardDelete i m) = Inr (\<exists>t \<in> set ts. task_id t = i)"
    using less
    by (simp add: TaskManager_hardDelete_def with_cache_loaded [OF assms] persist_fst Let_def)
  show ?thesis using sum same c r by simp
qed

text \<open>One task \<open>a\<close>: deleting \<open>a\<close> empties the collection, deleting \<open>b\<close> changes nothing.\<close>

theorem hardDelete_removes_every_match_witness:
  "TaskManager_hardDelete ''a'' manager_one
     = (Inr True, \<lparr> cache = Some [],
          repo = \<lparr> contents = Stored [], read_error = None, write_error = None, writes = 2 \<rparr> \<rparr>)
   \<and> fst (TaskManager_hardDelete ''b'' manager_one) = Inr False
   \<and> cache (snd (TaskManager_hardDelete ''b'' manager_one)) = Some [task_a]"
proof -
  have c: "collection manager_one = Inr [task_a]"
    by (simp add: manager_one_eq collection_def)
  have w: "write_error (repo manager_one) = None"
    by (simp add: manager_one_eq)
  have n: "\<forall>t \<in> set [task_a]. task_id t \<noteq> ''b''" by (simp add: task_a_def)
  have 1: "fst (TaskManager_hardDelete ''b'' manager_one) = Inr False"
    using hardDelete_removes_every_match [OF c, of "''b''"] w n by simp
  have 2: "cache (snd (TaskManager_hardDelete ''b'' manager_one)) = Some [task_a]"
    using hardDelete_removes_every_match [OF c, of "''b''"] n by blast
  have 3: "TaskManager_hardDelete ''a'' manager_one
     = (Inr True, \<lparr> cache = Some [],
          repo = \<lparr> contents = Stored [], read_error = None, write_error = None, writes = 2 \<rparr> \<rparr>)"
    by (simp add: TaskManager_hardDelete_def with_cache_def loadIfNeeded_def persist_def
        TaskRepository_writeAll_def stringify_def manager_one_eq task_a_def)
  show ?thesis using 1 2 3 by simp
qed

text \<open>
  C2 as stated, a decrease by exactly one for every collection, fails on the collection
  that two calls of \<open>add\<close> with the same id build: both tasks go.
\<close>

theorem hardDelete_exactly_one_counterexample:
  "cache manager_two = Some [task_a, task_b]
   \<and> task_id task_a = ''a'' \<and> task_id task_b = ''a''
   \<and> fst (TaskManager_hardDelete ''a'' manager_two) = Inr True
   \<and> cache (snd (TaskManager_hardDelete ''a'' manager_two)) = Some []
   \<and> length ([] :: ITask list) \<noteq> length [task_a, task_b] - 1"
  by (simp add: TaskManager_hardDelete_def with_cache_def loadIfNeeded_def persist_def
      TaskRepository_writeAll_def stringify_def manager_two_eq task_a_def task_b_def)


lemma list_loaded:
  assumes "cache m = Some ts"
  shows "\<exists>r. TaskManager_list lc parse opts m = (Inr r, m)
     \<and> set r = (if flag (options_includeDeleted opts) then set ts
                 else {t \<in> set ts. \<not> flag (deleted t)})"
proof -
  have c: "collection m = Inr ts" using assms by (rule collection_loaded)
  have m: "m\<lparr>cache := Some ts\<rparr> = m" using assms by (rule loaded_same)
  show ?thesis
    unfolding TaskManager_list_def with_cache_loaded [OF c] m
    by (auto simp: Let_def sortByTitle_def sortByCreation_def sortByDueDate_def
        sortByDifficulty_def set_Array_sort isNotDeleted_def
        split: option.splits sort_field.splits)
qed

text \<open>
  C5. \<open>softDelete(id)\<close> returns false when no task has the id. When one has, it
  returns true (the repository taking the write; the call throws otherwise); the first
  task with the id now has \<open>deleted = true\<close> where it stood in the collection; that
  task is absent from \<open>list()\<close> with default options (no options, or options without
  \<open>includeDeleted\<close>) and present in \<open>list({includeDeleted: true})\<close>, whatever the
  sort key.
\<close>

theorem softDelete_flags_first_match:
  assumes "collection m = Inr ts"
  shows "((\<forall>t \<in> set ts. task_id t \<noteq> i) \<longrightarrow> fst (TaskManager_softDelete i m) = Inr False)
     \<and> ((\<exists>t \<in> set ts. task_id t = i) \<longrightarrow>
          (\<exists>idx m'. idx < length ts \<and> task_id (ts ! idx) = i \<and> (\<forall>j < idx. task_id (ts ! j) \<noteq> i)
             \<and> m' = snd (TaskManager_softDelete i m)
             \<and> (write_error (repo m) = None \<longrightarrow> fst (TaskManager_softDelete i m) = Inr True)
             \<and> cache m' = Some (ts[idx := (ts ! idx)\<lparr>deleted := Some True\<rparr>])
             \<and> deleted ((ts ! idx)\<lparr>deleted := Some True\<rparr>) = Some True
             \<and> (\<exists>r. TaskManager_list lc parse None m' = (Inr r, m')
                   \<and> (ts ! idx)\<lparr>deleted := Some True\<rparr> \<notin> set r)
             \<and> (\<exists>r. TaskManager_list lc parse (Some \<lparr>includeDeleted = None, sortBy = sb\<rparr>) m'
                     = (Inr r, m')
                   \<and> (ts ! idx)\<lparr>deleted := Some True\<rparr> \<notin> set r)
             \<and> (\<exists>r. TaskManager_list lc parse (Some \<lparr>includeDeleted = Some True, sortBy = sb\<rparr>) m'
                     = (Inr r, m')
                   \<and> (ts ! idx)\<lparr>deleted := Some True\<rparr> \<in> set r)))"
proof (intro conjI impI)
  assume "\<forall>t \<in> set ts. task_id t \<noteq> i"
  then have "findIndex (\<lambda>x. task_id x = i) ts = None" by (simp add: findIndex_None)
  then show "fst (TaskManager_softDelete i m) = Inr False"
    by (simp add: TaskManager_softDelete_def with_cache_loaded [OF assms])
next
  assume a: "\<exists>t \<in> set ts. task_id t = i"
  then obtain idx where idx: "findIndex (\<lambda>x. task_id x = i) ts = Some idx"
    using findIndex_None [of "\<lambda>x. task_id x = i" ts] by auto
  note pos = findIndex_Some [OF idx]
  let ?t = "(ts ! idx)\<lparr>deleted := Some True\<rparr>"
  let ?m = "snd (TaskManager_softDelete i m)"
  have res: "write_error (repo m) = None \<longrightarrow> fst (TaskManager_softDelete i m) = Inr True"
    using idx by (simp add: TaskManager_softDelete_def with_cache_loaded [OF assms] persist_fst)
  have cache: "cache ?m = Some (ts[idx := ?t])"
    using idx by (simp add: TaskManager_softDelete_def with_cache_loaded [OF assms] cache_persist)
  have mem: "?t \<in> set (ts[idx := ?t])"
    using pos by (simp add: set_update_memI)
  have l1: "\<exists>r. TaskManager_list lc parse None ?m = (Inr r, ?m) \<and> ?t \<notin> set r"
    using list_loaded [OF cache, of lc parse None] by auto
  have l2: "\<exists>r. TaskManager_list lc parse (Some \<lparr>includeDeleted = None, sortBy = sb\<rparr>) ?m
      = (Inr r, ?m) \<and> ?t \<notin> set r"
    using list_loaded [OF cache, of lc parse "Some \<lparr>includeDeleted = None, sortBy = sb\<rparr>"] by auto
  have l3: "\<exists>r. TaskManager_list lc parse (Some \<lparr>includeDeleted = Some True, sortBy = sb\<rparr>) ?m
      = (Inr r, ?m) \<and> ?t \<in> set r"
    using list_loaded [OF cache, of lc parse "Some \<lparr>includeDeleted = Some True, sortBy = sb\<rparr>"] mem
    by auto
  show "\<exists>idx m'. idx < length ts \<and> task_id (ts ! idx) = i \<and> (\<forall>j < idx. task_id (ts ! j) \<noteq> i)
             \<and> m' = snd (TaskManager_softDelete i m)
             \<and> (write_error (repo m) = None \<longrightarrow> fst (TaskManager_softDelete i m) = Inr True)
             \<and> cache m' = Some (ts[idx := (ts ! idx)\<lparr>deleted := Some True\<rparr>])
             \<and> deleted ((ts ! idx)\<lparr>deleted := Some True\<rparr>) = Some True
             \<and> (\<exists>r. TaskManager_list lc parse None m' = (Inr r, m')
                   \<and> (ts ! idx)\<lparr>deleted := Some True\<rparr> \<notin> set r)
             \<and> (\<exists>r. TaskManager_list lc parse (Some \<lparr>includeDeleted = None, sortBy = sb\<rparr>) m'
                     = (Inr r, m')
                   \<and> (ts ! idx)\<lparr>deleted := Some True\<rparr> \<notin> set r)
             \<and> (\<exists>r. TaskManager_list lc parse (Some \<lparr>includeDeleted = Some True, sortBy = sb\<rparr>) m'
                     = (Inr r, m')
                   \<and> (ts ! idx)\<lparr>deleted := Some True\<rparr> \<in> set r)"
    using pos res cache l1 l2 l3 by (intro exI [of _ idx] exI [of _ ?m]) simp
qed

text \<open>
  Two tasks with id \<open>a\<close>: an unknown id gives false; \<open>softDelete(a)\<close> flags the
  first, which leaves the default listing and stays in the listing with deleted tasks.
\<close>

theorem softDelete_flags_first_match_witness:
  "fst (TaskManager_softDelete ''zz'' manager_two) = Inr False
   \<and> fst (TaskManager_softDelete ''a'' manager_two) = Inr True
   \<and> cache (snd (TaskManager_softDelete ''a'' manager_two))
       = Some [task_a\<lparr>deleted := Some True\<rparr>, task_b]
   \<and> fst (TaskManager_list (\<lambda>a b. 0) example_parse None
        (snd (TaskManager_softDelete ''a'' manager_two))) = Inr [task_b]
   \<and> fst (TaskManager_list (\<lambda>a b. 0) example_parse
        (Some \<lparr>includeDeleted = Some True, sortBy = None\<rparr>)
        (snd (TaskManager_softDelete ''a'' manager_two)))
       = Inr [task_a\<lparr>deleted := Some True\<rparr>, task_b]"
proof -
  have c: "collection manager_two = Inr [task_a, task_b]"
    by (simp add: manager_two_eq collection_def)
  have n: "\<forall>t \<in> set [task_a, task_b]. task_id t \<noteq> ''zz''"
    by (simp add: task_a_def task_b_def)
  have y: "\<exists>t \<in> set [task_a, task_b]. task_id t = ''a''"
    by (simp add: task_a_def)
  have w: "write_error (repo manager_two) = None"
    by (simp add: manager_two_eq)
  note s = softDelete_flags_first_match
    [OF c, where lc = "\<lambda>a b. 0" and parse = example_parse and sb = None]
  have 1: "fst (TaskManager_softDelete ''zz'' manager_two) = Inr False"
    using s [of "''zz''"] n by blast
  have 2: "fst (TaskManager_softDelete ''a'' manager_two) = Inr True"
    using s [of "''a''"] y w by blast
  have r: "snd (TaskManager_softDelete ''a'' manager_two) =
      \<lparr> cache = Some [task_a\<lparr>deleted := Some True\<rparr>, task_b],
        repo = \<lparr> contents = Stored [stringify (task_a\<lparr>deleted := Some True\<rparr>), stringify task_b],
                 read_error = None, write_error = None, writes = 3 \<rparr> \<rparr>"
    by (simp add: TaskManager_softDelete_def with_cache_def loadIfNeeded_def persist_def
        TaskRepository_writeAll_def stringify_def manager_two_eq task_a_def task_b_def)
  have 3: "fst (TaskManager_list (\<lambda>a b. 0) example_parse None
        (snd (TaskManager_softDelete ''a'' manager_two))) = Inr [task_b]"
    unfolding r
    by (simp add: TaskManager_list_def with_cache_def loadIfNeeded_def isNotDeleted_def
        task_a_def task_b_def)
  have 4: "fst (TaskManager_list (\<lambda>a b. 0) example_parse
        (Some \<lparr>includeDeleted = Some True, sortBy = None\<rparr>)
        (snd (TaskManager_softDelete ''a'' manager_two)))
       = Inr [task_a\<lparr>deleted := Some True\<rparr>, task_b]"
    unfolding r
    by (simp add: TaskManager_list_def with_cache_def loadIfNeeded_def isNotDeleted_def)
  show ?thesis using 1 2 3 4 r by simp
qed

text \<open>
  C4. \<open>update(id, changes)\<close> on an id that no task has returns \<open>undefined\<close> and writes
  nothing: the disk is as before, and the state differs from the one before at most by the
  cache being loaded. On an id that a task has, the updated record stands where the first
  task with the id stood; when the repository takes the write (the call throws otherwise),
  the call returns that record and the whole collection is written once. Each field of the
  record is the one of \<open>changes\<close> when present there and the current one otherwise,
  except the id, which is the current one whatever \<open>changes\<close> hold.
\<close>

theorem update_merges_over_current:
  assumes "collection m = Inr ts"
  shows "((\<forall>t \<in> set ts. task_id t \<noteq> i) \<longrightarrow>
            TaskManager_update i ch m = (Inr None, m\<lparr>cache := Some ts\<rparr>)
          \<and> repo (snd (TaskManager_update i ch m)) = repo m
          \<and> (cache m = Some ts \<longrightarrow> snd (TaskManager_update i ch m) = m))
     \<and> ((\<exists>t \<in> set ts. task_id t = i) \<longrightarrow>
          (\<exists>idx u. idx < length ts \<and> task_id (ts ! idx) = i \<and> (\<forall>j < idx. task_id (ts ! j) \<noteq> i)
             \<and> cache (snd (TaskManager_update i ch m)) = Some (ts[idx := u])
             \<and> (write_error (repo m) = None \<longrightarrow>
                  TaskManager_update i ch m =
                    (Inr (Some u),
                     m\<lparr>cache := Some (ts[idx := u]),
                       repo := (repo m)\<lparr>contents := Stored (map stringify (ts[idx := u])),
                                         writes := writes (repo m) + 1\<rparr>\<rparr>))
             \<and> task_id u = i
             \<and> title u = (case c_title ch of Absent \<Rightarrow> title (ts ! idx) | Present v \<Rightarrow> v)
             \<and> description u =
                 (case c_description ch of Absent \<Rightarrow> description (ts ! idx) | Present v \<Rightarrow> v)
             \<and> createdAt u =
                 (case c_createdAt ch of Absent \<Rightarrow> createdAt (ts ! idx) | Present v \<Rightarrow> v)
             \<and> dueDate u = (case c_dueDate ch of Absent \<Rightarrow> dueDate (ts ! idx) | Present v \<Rightarrow> v)
             \<and> difficulty u =
                 (case c_difficulty ch of Absent \<Rightarrow> difficulty (ts ! idx) | Present v \<Rightarrow> v)
             \<and> priority u = (case c_priority ch of Absent \<Rightarrow> priority (ts ! idx) | Present v \<Rightarrow> v)
             \<and> status u = (case c_status ch of Absent \<Rightarrow> status (ts ! idx) | Present v \<Rightarrow> v)
             \<and> tags u = (case c_tags ch of Absent \<Rightarrow> tags (ts ! idx) | Present v \<Rightarrow> v)
             \<and> relatedIds u =
                 (case c_relatedIds ch of Absent \<Rightarrow> relatedIds (ts ! idx) | Present v \<Rightarrow> v)
             \<and> deleted u = (case c_deleted ch of Absent \<Rightarrow> deleted (ts ! idx) | Present v \<Rightarrow> v)))"
proof (intro conjI impI)
  assume none: "\<forall>t \<in> set ts. task_id t \<noteq> i"
  then have f: "findIndex (\<lambda>t. task_id t = i) ts = None" by (simp add: findIndex_None)
  then show r: "TaskManager_update i ch m = (Inr None, m\<lparr>cache := Some ts\<rparr>)"
    by (simp add: TaskManager_update_def with_cache_loaded [OF assms])
  then show "repo (snd (TaskManager_update i ch m)) = repo m" by simp
  assume "cache m = Some ts"
  then show "snd (TaskManager_update i ch m) = m" using r by (simp add: loaded_same)
next
  assume a: "\<exists>t \<in> set ts. task_id t = i"
  then obtain idx where idx: "findIndex (\<lambda>x. task_id x = i) ts = Some idx"
    using findIndex_None [of "\<lambda>x. task_id x = i" ts] by auto
  note pos = findIndex_Some [OF idx]
  let ?u = "merge (ts ! idx) ch"
  have res: "write_error (repo m) = None \<longrightarrow> TaskManager_update i ch m =
      (Inr (Some ?u),
       m\<lparr>cache := Some (ts[idx := ?u]),
         repo := (repo m)\<lparr>contents := Stored (map stringify (ts[idx := ?u])),
                           writes := writes (repo m) + 1\<rparr>\<rparr>)"
    using idx
    by (simp add: TaskManager_update_def with_cache_loaded [OF assms] persist_ok Let_def)
  have cch: "cache (snd (TaskManager_update i ch m)) = Some (ts[idx := ?u])"
    using idx
    by (simp add: TaskManager_update_def with_cache_loaded [OF assms] cache_persist Let_def)
  have spread: "\<And>cur k. spread cur k = (case k of Absent \<Rightarrow> cur | Present v \<Rightarrow> v)"
    by (simp split: key.splits)
  show "\<exists>idx u. idx < length ts \<and> task_id (ts ! idx) = i \<and> (\<forall>j < idx. task_id (ts ! j) \<noteq> i)
             \<and> cache (snd (TaskManager_update i ch m)) = Some (ts[idx := u])
             \<and> (write_error (repo m) = None \<longrightarrow>
                  TaskManager_update i ch m =
                    (Inr (Some u),
                     m\<lparr>cache := Some (ts[idx := u]),
                       repo := (repo m)\<lparr>contents := Stored (map stringify (ts[idx := u])),
                                         writes := writes (repo m) + 1\<rparr>\<rparr>))
             \<and> task_id u = i
             \<and> title u = (case c_title ch of Absent \<Rightarrow> title (ts ! idx) | Present v \<Rightarrow> v)
             \<and> description u =
                 (case c_description ch of Absent \<Rightarrow> description (ts ! idx) | Present v \<Rightarrow> v)
             \<and> createdAt u =
                 (case c_createdAt ch of Absent \<Rightarrow> createdAt (ts ! idx) | Present v \<Rightarrow> v)
             \<and> dueDate u = (case c_dueDate ch of Absent \<Rightarrow> dueDate (ts ! idx) | Present v \<Rightarrow> v)
             \<and> difficulty u =
                 (case c_difficulty ch of Absent \<Rightarrow> difficulty (ts ! idx) | Present v \<Rightarrow> v)
             \<and> priority u = (case c_priority ch of Absent \<Rightarrow> priority (ts ! idx) | Present v \<Rightarrow> v)
             \<and> status u = (case c_status ch of Absent \<Rightarrow> status (ts ! idx) | Present v \<Rightarrow> v)
             \<and> tags u = (case c_tags ch of Absent \<Rightarrow> tags (ts ! idx) | Present v \<Rightarrow> v)
             \<and> relatedIds u =
                 (case c_relatedIds ch of Absent \<Rightarrow> relatedIds (ts ! idx) | Present v \<Rightarrow> v)
             \<and> deleted u = (case c_deleted ch of Absent \<Rightarrow> deleted (ts ! idx) | Present v \<Rightarrow> v)"
    using pos res cch by (intro exI [of _ idx] exI [of _ ?u]) (simp add: merge_def spread)
qed

text \<open>
  Two tasks with id \<open>a\<close>, and changes that hold the id \<open>z\<close> and a creation time:
  the unknown id \<open>zz\<close> leaves the manager as it is; on \<open>a\<close> the first task takes
  the creation time, keeps its id, and the collection is written a third time.
\<close>

theorem update_merges_over_current_witness:
  "TaskManager_update ''zz'' changes_createdAt manager_two = (Inr None, manager_two)
   \<and> TaskManager_update ''a'' changes_createdAt manager_two =
       (Inr (Some (task_a\<lparr>createdAt := ''1999-12-31T00:00:00Z''\<rparr>)),
        \<lparr> cache = Some [task_a\<lparr>createdAt := ''1999-12-31T00:00:00Z''\<rparr>, task_b],
          repo = \<lparr> contents = Stored [stringify (task_a\<lparr>createdAt := ''1999-12-31T00:00:00Z''\<rparr>),
                                     stringify task_b],
                   read_error = None, write_error = None, writes = 3 \<rparr> \<rparr>)
   \<and> task_id (task_a\<lparr>createdAt := ''1999-12-31T00:00:00Z''\<rparr>) = ''a''
   \<and> c_id changes_createdAt = Present ''z''"
proof -
  have c: "collection manager_two = Inr [task_a, task_b]"
    by (simp add: manager_two_eq collection_def)
  have l: "cache manager_two = Some [task_a, task_b]"
    by (simp add: manager_two_eq)
  have n: "\<forall>t \<in> set [task_a, task_b]. task_id t \<noteq> ''zz''"
    by (simp add: task_a_def task_b_def)
  have y: "\<exists>t \<in> set [task_a, task_b]. task_id t = ''a''"
    by (simp add: task_a_def)
  have w: "write_error (repo manager_two) = None"
    by (simp add: manager_two_eq)
  note u = update_merges_over_current [OF c, where ch = changes_createdAt]
  have 1: "TaskManager_update ''zz'' changes_createdAt manager_two = (Inr None, manager_two)"
    using u [of "''zz''"] n l by (simp add: loaded_same)
  have 2: "TaskManager_update ''a'' changes_createdAt manager_two =
      (Inr (Some (task_a\<lparr>createdAt := ''1999-12-31T00:00:00Z''\<rparr>)),
       \<lparr> cache = Some [task_a\<lparr>createdAt := ''1999-12-31T00:00:00Z''\<rparr>, task_b],
         repo = \<lparr> contents = Stored [stringify (task_a\<lparr>createdAt := ''1999-12-31T00:00:00Z''\<rparr>),
                                    stringify task_b],
                  read_error = None, write_error = None, writes = 3 \<rparr> \<rparr>)"
    by (simp add: TaskManager_update_def with_cache_def loadIfNeeded_def persist_def
        TaskRepository_writeAll_def stringify_def manager_two_eq task_a_def task_b_def merge_def
        changes_createdAt_def no_changes_def Let_def)
  from u [of "''a''"] y w obtain idx v where
    "TaskManager_update ''a'' changes_createdAt manager_two =
       (Inr (Some v),
        manager_two\<lparr>cache := Some ([task_a, task_b][idx := v]),
          repo := (repo manager_two)\<lparr>contents := Stored (map stringify ([task_a, task_b][idx := v])),
                                     writes := writes (repo manager_two) + 1\<rparr>\<rparr>)"
    and "task_id v = ''a''"
    by blast
  with 2 have 3: "task_id (task_a\<lparr>createdAt := ''1999-12-31T00:00:00Z''\<rparr>) = ''a''"
    by simp
  show ?thesis using 1 2 3 by (simp add: changes_createdAt_def no_changes_def)
qed


lemma map_update_same: "f u = f (ts ! idx) \<Longrightarrow> map f (ts[idx := u]) = map f ts"
  by (metis list_update_id map_update)

text \<open>
  C3, as the code has it. The creation times of the tasks of the collection, whether the
  repository takes the write or not: \<open>add\<close> leaves the existing tasks as they are;
  \<open>update\<close> with changes that hold no \<open>createdAt\<close> leaves every creation time, and
  with changes that hold one gives it to the first task with the id and leaves the others;
  \<open>softDelete\<close> leaves every creation time; \<open>hardDelete\<close> leaves the remaining tasks
  as they are; \<open>complete\<close>, \<open>softDelete\<close> and \<open>restore\<close> of a task leave its
  creation time.
\<close>

theorem createdAt_kept_unless_update_sets_it:
  assumes "collection m = Inr ts"
  shows "(\<exists>ts'. cache (snd (TaskManager_add uuid now p m)) = Some ts' \<and> take (length ts) ts' = ts)
     \<and> (c_createdAt ch = Absent \<longrightarrow>
          (\<exists>ts'. cache (snd (TaskManager_update i ch m)) = Some ts'
             \<and> map createdAt ts' = map createdAt ts))
     \<and> (\<forall>c. c_createdAt ch = Present c \<longrightarrow>
          (\<exists>ts'. cache (snd (TaskManager_update i ch m)) = Some ts'
             \<and> map createdAt ts' =
                 (case findIndex (\<lambda>t. task_id t = i) ts of
                    None \<Rightarrow> map createdAt ts
                  | Some idx \<Rightarrow> (map createdAt ts)[idx := c])))
     \<and> (\<exists>ts'. cache (snd (TaskManager_softDelete i m)) = Some ts'
           \<and> map createdAt ts' = map createdAt ts)
     \<and> cache (snd (TaskManager_hardDelete i m)) = Some (filter (\<lambda>t. task_id t \<noteq> i) ts)
     \<and> createdAt (Task_complete t) = createdAt t
     \<and> createdAt (Task_softDelete t) = createdAt t
     \<and> createdAt (Task_restore t) = createdAt t"
proof -
  have add: "\<exists>ts'. cache (snd (TaskManager_add uuid now p m)) = Some ts' \<and> take (length ts) ts' = ts"
    by (simp add: TaskManager_add_def with_cache_loaded [OF assms] cache_persist
        split: sum.splits)
  have upd1: "\<exists>ts'. cache (snd (TaskManager_update i ch m)) = Some ts'
      \<and> map createdAt ts' = map createdAt ts" if "c_createdAt ch = Absent"
    using that
    by (simp add: TaskManager_update_def with_cache_loaded [OF assms] cache_persist Let_def
        map_update_same merge_def split: option.splits)
  have upd2: "\<exists>ts'. cache (snd (TaskManager_update i ch m)) = Some ts'
      \<and> map createdAt ts' =
          (case findIndex (\<lambda>t. task_id t = i) ts of
             None \<Rightarrow> map createdAt ts
           | Some idx \<Rightarrow> (map createdAt ts)[idx := c])" if "c_createdAt ch = Present c" for c
    using that
    by (simp add: TaskManager_update_def with_cache_loaded [OF assms] cache_persist Let_def
        map_update merge_def split: option.splits)
  have soft: "\<exists>ts'. cache (snd (TaskManager_softDelete i m)) = Some ts'
      \<and> map createdAt ts' = map createdAt ts"
    by (simp add: TaskManager_softDelete_def with_cache_loaded [OF assms] cache_persist
        map_update_same split: option.splits)
  have hard: "cache (snd (TaskManager_hardDelete i m)) = Some (filter (\<lambda>t. task_id t \<noteq> i) ts)"
    by (simp add: TaskManager_hardDelete_def with_cache_loaded [OF assms] cache_persist Let_def)
  show ?thesis
    using add upd1 upd2 soft hard
    by (simp add: Task_complete_def Task_softDelete_def Task_restore_def)
qed

text \<open>The five operations on the managers of one and of two tasks.\<close>

theorem createdAt_kept_unless_update_sets_it_witness:
  "cache (snd (TaskManager_add ''u2'' ''2025-01-03T00:00:00Z'' payload_b manager_one))
      = Some [task_a, task_b]
   \<and> cache (snd (TaskManager_update ''a'' no_changes manager_two)) = Some [task_a, task_b]
   \<and> cache (snd (TaskManager_update ''a'' changes_createdAt manager_two))
      = Some [task_a\<lparr>createdAt := ''1999-12-31T00:00:00Z''\<rparr>, task_b]
   \<and> cache (snd (TaskManager_softDelete ''a'' manager_two))
      = Some [task_a\<lparr>deleted := Some True\<rparr>, task_b]
   \<and> cache (snd (TaskManager_hardDelete ''zz'' manager_two)) = Some [task_a, task_b]"
proof -
  have c2: "collection manager_two = Inr [task_a, task_b]"
    by (simp add: manager_two_eq collection_def)
  have "cache (snd (TaskManager_hardDelete ''zz'' manager_two))
      = Some (filter (\<lambda>t. task_id t \<noteq> ''zz'') [task_a, task_b])"
    using createdAt_kept_unless_update_sets_it
      [OF c2, where i = "''zz''" and ch = no_changes and t = task_a and uuid = "''u2''"
         and now = "''2025-01-03T00:00:00Z''" and p = payload_b]
    by (elim conjE)
  then have hard: "cache (snd (TaskManager_hardDelete ''zz'' manager_two)) = Some [task_a, task_b]"
    by (simp add: task_a_def task_b_def)
  have add: "cache (snd (TaskManager_add ''u2'' ''2025-01-03T00:00:00Z'' payload_b manager_one))
      = Some [task_a, task_b]"
    unfolding manager_two_def [symmetric] by (simp add: manager_two_eq)
  have upd1: "cache (snd (TaskManager_update ''a'' no_changes manager_two)) = Some [task_a, task_b]"
    by (simp add: TaskManager_update_def with_cache_def loadIfNeeded_def persist_def
        TaskRepository_writeAll_def stringify_def manager_two_eq task_a_def task_b_def merge_def
        no_changes_def Let_def)
  have upd2: "cache (snd (TaskManager_update ''a'' changes_createdAt manager_two))
      = Some [task_a\<lparr>createdAt := ''1999-12-31T00:00:00Z''\<rparr>, task_b]"
    by (simp add: TaskManager_update_def with_cache_def loadIfNeeded_def persist_def
        TaskRepository_writeAll_def stringify_def manager_two_eq task_a_def task_b_def merge_def
        changes_createdAt_def no_changes_def Let_def)
  have soft: "cache (snd (TaskManager_softDelete ''a'' manager_two))
      = Some [task_a\<lparr>deleted := Some True\<rparr>, task_b]"
    by (simp add: TaskManager_softDelete_def with_cache_def loadIfNeeded_def persist_def
        TaskRepository_writeAll_def stringify_def manager_two_eq task_a_def task_b_def)
  show ?thesis using add upd1 upd2 soft hard by simp
qed

text \<open>
  C3 as stated fails for \<open>update\<close> with changes that hold a \<open>createdAt\<close>: the
  task created on 1 January 2025 is, after the update, created on 31 December 1999. Only
  the id is put back after the changes are spread.
\<close>

theorem update_overwrites_createdAt_counterexample:
  "cache manager_one = Some [task_a]
   \<and> createdAt task_a = ''2025-01-01T00:00:00Z''
   \<and> TaskManager_update ''a'' changes_createdAt manager_one =
       (Inr (Some (task_a\<lparr>createdAt := ''1999-12-31T00:00:00Z''\<rparr>)),
        \<lparr> cache = Some [task_a\<lparr>createdAt := ''1999-12-31T00:00:00Z''\<rparr>],
          repo = \<lparr> contents = Stored [stringify (task_a\<lparr>createdAt := ''1999-12-31T00:00:00Z''\<rparr>)],
                   read_error = None, write_error = None, writes = 2 \<rparr> \<rparr>)
   \<and> createdAt (task_a\<lparr>createdAt := ''1999-12-31T00:00:00Z''\<rparr>) \<noteq> createdAt task_a"
  by (simp add: TaskManager_update_def with_cache_def loadIfNeeded_def persist_def
      TaskRepository_writeAll_def stringify_def manager_one_eq task_a_def merge_def
      changes_createdAt_def no_changes_def Let_def)

end
